theory Spec2Isabelle
  imports Complex_Main "HOL-Library.Monad_Syntax" "HOL-Library.Log_Nat"
begin

section \<open>The rule engine of the credit approval worker (src/index.ts)\<close>

text \<open>
  The engine is the function \<open>computeDecision\<close> of \<open>src/index.ts\<close> with its two helpers
  \<open>asNumber\<close> and \<open>sumDebts\<close>. It receives the value that \<open>request.json()\<close> produced
  and returns a plain record.

  Conventions of the embedding:
  \<^item> A JavaScript number is a \<open>jsnum\<close>: a finite value, one of the two infinities, or NaN.
    A finite value is the real number the double denotes. Every arithmetic operation
    rounds its exact result to the nearest double, ties to even, and overflows to an
    infinity, as IEEE 754 binary64 does (\<open>fl\<close>). The sign of zero is not modelled: the
    engine never divides by a zero, and its comparisons and additions do not tell the two
    zeros apart. Only \<open>toLocaleString\<close> can print a negative zero, in the holdback limit
    of the repairs condition, and no statement below depends on that text.
  \<^item> A JavaScript value is a \<open>jsval\<close>: the values JSON can denote, and \<open>undefined\<close>,
    which reading a missing property yields. An object is the list of its own properties
    in the order in which \<open>Object.entries\<close> lists them (the keys that are array indices
    in ascending order, then the others in insertion order); its keys are distinct, and
    a lookup takes the first binding.
  \<^item> An operation that throws a TypeError in JavaScript returns \<open>None\<close>.
  \<^item> A string is the list of the bytes of its UTF-8 form.
\<close>

subsection \<open>Numbers\<close>

datatype jsnum = Fin real | PosInf | NegInf | NaN

text \<open>\<open>Number.isFinite\<close>.\<close>

fun isFinite :: "jsnum \<Rightarrow> bool" where
  "isFinite (Fin _) = True"
| "isFinite _ = False"

text \<open>Powers with an integer exponent, by repeated squaring.\<close>

definition sq :: "real \<Rightarrow> real" where
  "sq x = x * x"

function ipow :: "real \<Rightarrow> int \<Rightarrow> real" where
  "ipow b e =
     (if e \<le> 0 then 1
      else if e mod 2 = 0 then sq (ipow b (e div 2))
      else b * sq (ipow b (e div 2)))"
  by pat_completeness auto
termination
  by (relation "measure (\<lambda>(b, e). nat e)") auto

declare ipow.simps [simp del]

definition pow2 :: "int \<Rightarrow> real" where
  "pow2 e = (if 0 \<le> e then ipow 2 e else 1 / ipow 2 (- e))"

text \<open>The nearest integer, a tie going to the even one.\<close>

definition round_even :: "real \<Rightarrow> int" where
  "round_even q =
     (let f = \<lfloor>q\<rfloor>; d = q - of_int f
      in if d < 1 / 2 then f else if 1 / 2 < d then f + 1 else if even f then f else f + 1)"

text \<open>
  The binary exponent of a non-zero real: the integer \<open>e\<close> with
  \<open>2^e \<le> |x| < 2^(e+1)\<close>, and -1022 for the values below \<open>2^-1022\<close>, which are
  subnormal.
\<close>

definition exponent :: "real \<Rightarrow> int" where
  "exponent x =
     (let a = \<bar>x\<bar> in
      if 1 \<le> a then bitlen \<lfloor>a\<rfloor> - 1
      else
        (let b = bitlen \<lfloor>1 / a\<rfloor>
         in max (if pow2 (1 - b) \<le> a then 1 - b else - b) (- 1022)))"

text \<open>
  Rounding to binary64: \<open>x\<close> is rounded to a multiple \<open>n * 2^(e - 52)\<close> of the unit
  in the last of the 53 places of its binade; the result is an infinity when its
  magnitude reaches \<open>2^1024\<close>, that is when \<open>n\<close> has 54 bits in the top binade.
\<close>

definition fl :: "real \<Rightarrow> jsnum" where
  "fl x =
     (if x = 0 then Fin 0
      else
        (let e = exponent x;
             u = pow2 (e - 52);
             n = round_even (x / u)
         in if 1076 < bitlen \<bar>n\<bar> + e then (if 0 < x then PosInf else NegInf)
            else Fin (of_int n * u)))"

text \<open>
  The doubles that the decimal literals \<open>0.28\<close>, \<open>0.80\<close>, \<open>0.97\<close> and \<open>0.03\<close> of the
  source denote. The literals \<open>0.25\<close>, \<open>0.50\<close> and \<open>1.5\<close> are doubles themselves.
\<close>

definition d0_28 :: real where
  "d0_28 = 1261007895663739 / 4503599627370496"

definition d0_80 :: real where
  "d0_80 = 3602879701896397 / 4503599627370496"

definition d0_97 :: real where
  "d0_97 = 4368491638549381 / 4503599627370496"

definition d0_03 :: real where
  "d0_03 = 1080863910568919 / 36028797018963968"

text \<open>Unary minus, and the operators \<open>+\<close>, \<open>-\<close>, \<open>*\<close> and \<open>/\<close> on two numbers.\<close>

fun js_neg :: "jsnum \<Rightarrow> jsnum" where
  "js_neg (Fin a) = Fin (- a)"
| "js_neg PosInf = NegInf"
| "js_neg NegInf = PosInf"
| "js_neg NaN = NaN"

fun js_add :: "jsnum \<Rightarrow> jsnum \<Rightarrow> jsnum" where
  "js_add NaN _ = NaN"
| "js_add _ NaN = NaN"
| "js_add (Fin a) (Fin b) = fl (a + b)"
| "js_add (Fin _) PosInf = PosInf"
| "js_add (Fin _) NegInf = NegInf"
| "js_add PosInf (Fin _) = PosInf"
| "js_add NegInf (Fin _) = NegInf"
| "js_add PosInf PosInf = PosInf"
| "js_add NegInf NegInf = NegInf"
| "js_add PosInf NegInf = NaN"
| "js_add NegInf PosInf = NaN"

definition js_sub :: "jsnum \<Rightarrow> jsnum \<Rightarrow> jsnum" where
  "js_sub a b = js_add a (js_neg b)"

fun js_mul :: "jsnum \<Rightarrow> jsnum \<Rightarrow> jsnum" where
  "js_mul NaN _ = NaN"
| "js_mul _ NaN = NaN"
| "js_mul (Fin a) (Fin b) = fl (a * b)"
| "js_mul (Fin a) PosInf = (if a = 0 then NaN else if 0 < a then PosInf else NegInf)"
| "js_mul (Fin a) NegInf = (if a = 0 then NaN else if 0 < a then NegInf else PosInf)"
| "js_mul PosInf (Fin b) = (if b = 0 then NaN else if 0 < b then PosInf else NegInf)"
| "js_mul NegInf (Fin b) = (if b = 0 then NaN else if 0 < b then NegInf else PosInf)"
| "js_mul PosInf PosInf = PosInf"
| "js_mul NegInf NegInf = PosInf"
| "js_mul PosInf NegInf = NegInf"
| "js_mul NegInf PosInf = NegInf"

text \<open>
  The engine divides only behind a guard that the divisor is above zero; a zero divisor
  is taken to be positive.
\<close>

fun js_div :: "jsnum \<Rightarrow> jsnum \<Rightarrow> jsnum" where
  "js_div NaN _ = NaN"
| "js_div _ NaN = NaN"
| "js_div (Fin a) (Fin b) =
     (if b \<noteq> 0 then fl (a / b) else if a = 0 then NaN else if 0 < a then PosInf else NegInf)"
| "js_div (Fin _) PosInf = Fin 0"
| "js_div (Fin _) NegInf = Fin 0"
| "js_div PosInf (Fin b) = (if 0 \<le> b then PosInf else NegInf)"
| "js_div NegInf (Fin b) = (if 0 \<le> b then NegInf else PosInf)"
| "js_div _ _ = NaN"

text \<open>The comparison \<open>a <= b\<close>, false when either side is NaN; \<open>Math.min\<close> and \<open>Math.max\<close>.\<close>

fun js_le :: "jsnum \<Rightarrow> jsnum \<Rightarrow> bool" where
  "js_le NaN _ = False"
| "js_le _ NaN = False"
| "js_le (Fin a) (Fin b) = (a \<le> b)"
| "js_le NegInf _ = True"
| "js_le _ PosInf = True"
| "js_le _ _ = False"

definition Math_min :: "jsnum \<Rightarrow> jsnum \<Rightarrow> jsnum" where
  "Math_min a b = (if a = NaN \<or> b = NaN then NaN else if js_le a b then a else b)"

definition Math_max :: "jsnum \<Rightarrow> jsnum \<Rightarrow> jsnum" where
  "Math_max a b = (if a = NaN \<or> b = NaN then NaN else if js_le a b then b else a)"

text \<open>\<open>Math.round\<close>: the nearest integer, a tie going up.\<close>

fun Math_round :: "jsnum \<Rightarrow> jsnum" where
  "Math_round (Fin x) = Fin (of_int \<lfloor>x + 1 / 2\<rfloor>)"
| "Math_round x = x"

subsection \<open>Values\<close>

datatype jsval =
    JUndefined
  | JNull
  | JBool bool
  | JNum jsnum
  | JStr string
  | JArr "jsval list"
  | JObj "(string \<times> jsval) list"

datatype jstype = TUndefined | TObject | TBoolean | TNumber | TString

text \<open>The operator \<open>typeof\<close>; \<open>typeof null\<close> is \<open>"object"\<close>.\<close>

fun js_typeof :: "jsval \<Rightarrow> jstype" where
  "js_typeof JUndefined = TUndefined"
| "js_typeof JNull = TObject"
| "js_typeof (JBool _) = TBoolean"
| "js_typeof (JNum _) = TNumber"
| "js_typeof (JStr _) = TString"
| "js_typeof (JArr _) = TObject"
| "js_typeof (JObj _) = TObject"

text \<open>Truthiness, as \<open>!x\<close> and \<open>x || y\<close> test it.\<close>

fun truthy :: "jsval \<Rightarrow> bool" where
  "truthy JUndefined = False"
| "truthy JNull = False"
| "truthy (JBool b) = b"
| "truthy (JNum (Fin r)) = (r \<noteq> 0)"
| "truthy (JNum NaN) = False"
| "truthy (JNum _) = True"
| "truthy (JStr s) = (s \<noteq> [])"
| "truthy (JArr _) = True"
| "truthy (JObj _) = True"

fun nullish :: "jsval \<Rightarrow> bool" where
  "nullish JUndefined = True"
| "nullish JNull = True"
| "nullish _ = False"

fun isArray :: "jsval \<Rightarrow> bool" where
  "isArray (JArr _) = True"
| "isArray _ = False"

text \<open>
  Reading the property \<open>k\<close> of a value that is neither \<open>null\<close> nor \<open>undefined\<close>. The
  names the engine reads are fixed field names; none of them is an array index or a
  member of a prototype, so on an array only \<open>length\<close> is found and on a primitive nothing.
\<close>

fun read_prop :: "jsval \<Rightarrow> string \<Rightarrow> jsval" where
  "read_prop (JObj kvs) k = (case map_of kvs k of None \<Rightarrow> JUndefined | Some v \<Rightarrow> v)"
| "read_prop (JArr xs) k = (if k = ''length'' then JNum (Fin (real (length xs))) else JUndefined)"
| "read_prop (JStr s) k = (if k = ''length'' then JNum (Fin (real (length s))) else JUndefined)"
| "read_prop _ k = JUndefined"

text \<open>\<open>v.k\<close>: a TypeError on \<open>null\<close> and \<open>undefined\<close>.\<close>

definition get_prop :: "jsval \<Rightarrow> string \<Rightarrow> jsval option" where
  "get_prop v k = (if nullish v then None else Some (read_prop v k))"

text \<open>\<open>v?.k\<close>: \<open>undefined\<close> on \<open>null\<close> and \<open>undefined\<close>.\<close>

definition opt_get :: "jsval \<Rightarrow> string \<Rightarrow> jsval" where
  "opt_get v k = (if nullish v then JUndefined else read_prop v k)"

text \<open>\<open>a ?? b\<close> on values, and on the \<open>number | null\<close> that \<open>asNumber\<close> returns.\<close>

definition coalesce :: "jsval \<Rightarrow> jsval \<Rightarrow> jsval" where
  "coalesce a b = (if nullish a then b else a)"

definition or_else :: "'a option \<Rightarrow> 'a \<Rightarrow> 'a" where
  "or_else a b = (case a of None \<Rightarrow> b | Some x \<Rightarrow> x)"

subsection \<open>Strings\<close>

text \<open>
  The white space that \<open>String.prototype.trim\<close> and \<open>Number\<close> strip, in UTF-8: TAB, LF,
  VT, FF, CR, SP, U+00A0, U+1680, U+2000 to U+200A, U+2028, U+2029, U+202F, U+205F,
  U+3000 and U+FEFF.
\<close>

definition white_space :: "string list" where
  "white_space =
     [[CHR 0x09], [CHR 0x0A], [CHR 0x0B], [CHR 0x0C], [CHR 0x0D], [CHR 0x20],
      [CHR 0xC2, CHR 0xA0],
      [CHR 0xE1, CHR 0x9A, CHR 0x80],
      [CHR 0xE2, CHR 0x80, CHR 0x80], [CHR 0xE2, CHR 0x80, CHR 0x81],
      [CHR 0xE2, CHR 0x80, CHR 0x82], [CHR 0xE2, CHR 0x80, CHR 0x83],
      [CHR 0xE2, CHR 0x80, CHR 0x84], [CHR 0xE2, CHR 0x80, CHR 0x85],
      [CHR 0xE2, CHR 0x80, CHR 0x86], [CHR 0xE2, CHR 0x80, CHR 0x87],
      [CHR 0xE2, CHR 0x80, CHR 0x88], [CHR 0xE2, CHR 0x80, CHR 0x89],
      [CHR 0xE2, CHR 0x80, CHR 0x8A],
      [CHR 0xE2, CHR 0x80, CHR 0xA8], [CHR 0xE2, CHR 0x80, CHR 0xA9],
      [CHR 0xE2, CHR 0x80, CHR 0xAF],
      [CHR 0xE2, CHR 0x81, CHR 0x9F],
      [CHR 0xE3, CHR 0x80, CHR 0x80],
      [CHR 0xEF, CHR 0xBB, CHR 0xBF]]"

text \<open>The length of the sequence of \<open>seqs\<close> that \<open>s\<close> starts with, 0 if it starts with none.\<close>

definition prefix_len :: "string list \<Rightarrow> string \<Rightarrow> nat" where
  "prefix_len seqs s =
     (case filter (\<lambda>w. take (length w) s = w) seqs of [] \<Rightarrow> 0 | w # _ \<Rightarrow> length w)"

text \<open>Dropping leading sequences of \<open>seqs\<close>, at most \<open>n\<close> of them.\<close>

fun strip :: "nat \<Rightarrow> string list \<Rightarrow> string \<Rightarrow> string" where
  "strip 0 seqs s = s"
| "strip (Suc n) seqs s =
     (if prefix_len seqs s = 0 then s else strip n seqs (drop (prefix_len seqs s) s))"

text \<open>
  \<open>String.prototype.trim\<close>: the white space is dropped at the front, and at the back by
  dropping the reversed sequences from the reversed string.
\<close>

definition trim :: "string \<Rightarrow> string" where
  "trim s =
     (let t = strip (length s) white_space s
      in rev (strip (length t) (map rev white_space) (rev t)))"

text \<open>Calling \<open>.trim()\<close> on a value: a TypeError unless it is a string.\<close>

fun js_trim :: "jsval \<Rightarrow> string option" where
  "js_trim (JStr s) = Some (trim s)"
| "js_trim _ = None"

definition lower_char :: "char \<Rightarrow> char" where
  "lower_char c =
     (let n = (of_char c :: nat) in if 65 \<le> n \<and> n \<le> 90 then char_of (n + 32) else c)"

text \<open>
  \<open>String.prototype.toLowerCase\<close> on the ASCII letters. The engine only compares the
  result with \<open>"yes"\<close> and searches it for \<open>"condo"\<close>; no letter outside ASCII has a lower
  case among the letters of these two words.
\<close>

definition toLowerCase :: "string \<Rightarrow> string" where
  "toLowerCase s = map lower_char s"

text \<open>\<open>s.includes(t)\<close>.\<close>

fun str_includes :: "string \<Rightarrow> string \<Rightarrow> bool" where
  "str_includes [] t = (t = [])"
| "str_includes (c # cs) t = (take (length t) (c # cs) = t \<or> str_includes cs t)"

text \<open>\<open>xs.join(sep)\<close> on a list of strings.\<close>

fun join :: "string \<Rightarrow> string list \<Rightarrow> string" where
  "join sep [] = []"
| "join sep [x] = x"
| "join sep (x # y # ys) = x @ sep @ join sep (y # ys)"

subsection \<open>\<open>Number(s)\<close> on a string\<close>

text \<open>
  The grammar of ECMAScript's StringToNumber: white space is trimmed, the empty string
  is 0; then a binary, octal or hexadecimal integer without sign, or an optionally signed
  \<open>Infinity\<close> or decimal literal with optional fraction and exponent. Anything else is
  NaN. The value of the literal is rounded to the nearest double.
\<close>

definition is_digit :: "char \<Rightarrow> bool" where
  "is_digit c = (48 \<le> (of_char c :: nat) \<and> (of_char c :: nat) \<le> 57)"

definition digit_of :: "char \<Rightarrow> int option" where
  "digit_of c =
     (let n = (of_char c :: int) in
      if 48 \<le> n \<and> n \<le> 57 then Some (n - 48)
      else if 97 \<le> n \<and> n \<le> 102 then Some (n - 87)
      else if 65 \<le> n \<and> n \<le> 70 then Some (n - 55)
      else None)"

text \<open>The value of a digit string in the given base, if every digit is below it.\<close>

fun digits_val :: "int \<Rightarrow> int \<Rightarrow> string \<Rightarrow> int option" where
  "digits_val base acc [] = Some acc"
| "digits_val base acc (c # cs) =
     (case digit_of c of
        None \<Rightarrow> None
      | Some d \<Rightarrow> if d < base then digits_val base (base * acc + d) cs else None)"

definition radix_int :: "int \<Rightarrow> string \<Rightarrow> jsnum" where
  "radix_int base ds =
     (if ds = [] then NaN
      else case digits_val base 0 ds of None \<Rightarrow> NaN | Some n \<Rightarrow> fl (of_int n))"

text \<open>The exponent part: empty, or \<open>e\<close> or \<open>E\<close>, an optional sign and at least one digit.\<close>

definition exponent_part :: "string \<Rightarrow> int option" where
  "exponent_part s =
     (case s of
        [] \<Rightarrow> Some 0
      | c # r \<Rightarrow>
          if c = CHR ''e'' \<or> c = CHR ''E'' then
            (let neg = (r \<noteq> [] \<and> hd r = CHR ''-'');
                 ds = (if r \<noteq> [] \<and> (hd r = CHR ''-'' \<or> hd r = CHR ''+'') then tl r else r)
             in if ds = [] then None
                else map_option (\<lambda>n. if neg then - n else n) (digits_val 10 0 ds))
          else None)"

definition scale10 :: "real \<Rightarrow> int \<Rightarrow> real" where
  "scale10 m e = (if 0 \<le> e then m * ipow 10 e else m / ipow 10 (- e))"

definition unsigned_decimal :: "string \<Rightarrow> jsnum" where
  "unsigned_decimal s =
     (if s = ''Infinity'' then PosInf
      else
        let ip = takeWhile is_digit s;
            r1 = dropWhile is_digit s;
            dot = (r1 \<noteq> [] \<and> hd r1 = CHR ''.'');
            fp = (if dot then takeWhile is_digit (tl r1) else []);
            r2 = (if dot then dropWhile is_digit (tl r1) else r1)
        in if ip = [] \<and> fp = [] then NaN
           else
             (case (digits_val 10 0 ip, digits_val 10 0 fp, exponent_part r2) of
                (Some i, Some f, Some e) \<Rightarrow>
                  fl (scale10 (of_int i + of_int f / ipow 10 (int (length fp))) e)
              | _ \<Rightarrow> NaN))"

definition str_to_number :: "string \<Rightarrow> jsnum" where
  "str_to_number s =
     (let t = trim s in
      if t = [] then Fin 0
      else if take 2 t \<in> {''0x'', ''0X''} then radix_int 16 (drop 2 t)
      else if take 2 t \<in> {''0o'', ''0O''} then radix_int 8 (drop 2 t)
      else if take 2 t \<in> {''0b'', ''0B''} then radix_int 2 (drop 2 t)
      else if hd t = CHR ''-'' then js_neg (unsigned_decimal (tl t))
      else if hd t = CHR ''+'' then unsigned_decimal (tl t)
      else unsigned_decimal t)"

subsection \<open>\<open>asNumber\<close> and \<open>sumDebts\<close>\<close>

text \<open>
  \<^verbatim>\<open>const n = typeof x === "number" ? x : typeof x === "string" ? Number(x) : NaN;
  return Number.isFinite(n) ? n : null;\<close>
\<close>

definition asNumber :: "jsval \<Rightarrow> real option" where
  "asNumber x =
     (let n = (case x of JNum v \<Rightarrow> v | JStr s \<Rightarrow> str_to_number s | _ \<Rightarrow> NaN)
      in case n of Fin r \<Rightarrow> Some r | _ \<Rightarrow> None)"

text \<open>
  \<open>Object.entries\<close>: the own properties of an object; for an array, its elements
  under their indices written in decimal.
\<close>

fun show_nat :: "nat \<Rightarrow> string" where
  "show_nat n =
     (if n < 10 then [char_of (48 + n)] else show_nat (n div 10) @ [char_of (48 + n mod 10)])"

declare show_nat.simps [simp del]

fun entries :: "jsval \<Rightarrow> (string \<times> jsval) list" where
  "entries (JObj kvs) = kvs"
| "entries (JArr xs) = zip (map show_nat [0..<length xs]) xs"
| "entries _ = []"

text \<open>The \<open>number\<close> behind a value that passed \<open>typeof v === "number"\<close>.\<close>

fun as_number :: "jsval \<Rightarrow> jsnum" where
  "as_number (JNum n) = n"
| "as_number _ = NaN"

text \<open>
  \<^verbatim>\<open>if (!debts || typeof debts !== "object") return 0;
  const total = asNumber(debts.total_monthly_debt);
  if (total !== null) return total;
  return Object.entries(debts)
    .filter(([k, v]) => k !== "total_monthly_debt" && typeof v === "number")
    .reduce((acc, [, v]) => acc + (v as number), 0);\<close>
\<close>

definition sumDebts :: "jsval \<Rightarrow> jsnum option" where
  "sumDebts debts =
     (if \<not> truthy debts \<or> js_typeof debts \<noteq> TObject then Some (Fin 0)
      else do {
        t \<leftarrow> get_prop debts ''total_monthly_debt'';
        (case asNumber t of
           Some tot \<Rightarrow> Some (Fin tot)
         | None \<Rightarrow>
             Some (foldl (\<lambda>acc (k, v). js_add acc (as_number v)) (Fin 0)
                    (filter (\<lambda>(k, v). k \<noteq> ''total_monthly_debt'' \<and> js_typeof v = TNumber)
                       (entries debts))))
      })"

subsection \<open>Builtins that render numbers as text\<close>

text \<open>
  \<open>Number.prototype.toString\<close> (behind \<open>String(n)\<close> and a number in a template),
  \<open>toFixed(1)\<close> and \<open>toLocaleString()\<close> belong to the JavaScript runtime and depend on
  the locale and on the shortest decimal that reads back as the double. They are
  parameters of the model; none of them throws on a number.
\<close>

record builtins =
  numToString :: "jsnum \<Rightarrow> string"
  toFixed1 :: "jsnum \<Rightarrow> string"
  toLocaleString :: "jsnum \<Rightarrow> string"

text \<open>
  \<open>String(v)\<close>. An object parsed from JSON is converted by the inherited \<open>toString\<close>
  to \<open>[object Object]\<close>, unless it has a key \<open>toString\<close> of its own: its value is not
  callable, the inherited \<open>valueOf\<close> returns the object itself, and the conversion throws
  a TypeError. An array is the join of its elements with a comma, \<open>null\<close> and
  \<open>undefined\<close> elements being empty, and throws when an element does.
\<close>

fun js_String :: "builtins \<Rightarrow> jsval \<Rightarrow> string option" where
  "js_String B JUndefined = Some ''undefined''"
| "js_String B JNull = Some ''null''"
| "js_String B (JBool b) = Some (if b then ''true'' else ''false'')"
| "js_String B (JNum n) = Some (numToString B n)"
| "js_String B (JStr s) = Some s"
| "js_String B (JArr xs) =
     map_option (join '','')
       (those (map (\<lambda>x. if nullish x then Some [] else js_String B x) xs))"
| "js_String B (JObj kvs) =
     (if map_of kvs ''toString'' \<noteq> None then None else Some ''[object Object]'')"

definition nl :: string where
  "nl = [CHR 0x0A]"

subsection \<open>Stage 1: the normalised fields\<close>

text \<open>
  Each \<open>const\<close> of \<open>computeDecision\<close> is a definition of the same name over the input.
  \<open>asNumber(...) ?? 0\<close> is \<open>or_else (asNumber ...) 0\<close>.
\<close>

text \<open>\<^verbatim>\<open>typeof input?.case_id === "string" ? input.case_id : "demo"\<close>\<close>

definition case_id :: "jsval \<Rightarrow> jsval option" where
  "case_id input =
     (if js_typeof (opt_get input ''case_id'') = TString then get_prop input ''case_id''
      else Some (JStr ''demo''))"

definition credit_score :: "jsval \<Rightarrow> real" where
  "credit_score input = or_else (asNumber (opt_get input ''credit_score'')) 0"

definition monthly_income :: "jsval \<Rightarrow> real" where
  "monthly_income input =
     or_else (asNumber (opt_get (opt_get input ''employment'') ''monthly_income'')) 0"

definition proposed_payment :: "jsval \<Rightarrow> real" where
  "proposed_payment input =
     or_else (asNumber (opt_get (opt_get input ''loan'') ''monthly_piti''))
       (or_else (asNumber (opt_get (opt_get input ''loan'') ''estimated_payment'')) 0)"

definition providedDtiRatio :: "jsval \<Rightarrow> real option" where
  "providedDtiRatio input = asNumber (opt_get input ''dti_ratio'')"

definition loan_amount :: "jsval \<Rightarrow> real" where
  "loan_amount input = or_else (asNumber (opt_get (opt_get input ''loan'') ''amount'')) 0"

definition appraised_value :: "jsval \<Rightarrow> real" where
  "appraised_value input =
     or_else (asNumber (opt_get (opt_get input ''property'') ''appraised_value'')) 0"

text \<open>
  \<^verbatim>\<open>asNumber(input?.assets?.liquid_assets_total) ??
    ((asNumber(input?.assets?.checking) ?? 0) + (asNumber(input?.assets?.savings) ?? 0))\<close>
\<close>

definition liquid_assets_total :: "jsval \<Rightarrow> jsnum" where
  "liquid_assets_total input =
     (case asNumber (opt_get (opt_get input ''assets'') ''liquid_assets_total'') of
        Some t \<Rightarrow> Fin t
      | None \<Rightarrow>
          js_add (Fin (or_else (asNumber (opt_get (opt_get input ''assets'') ''checking'')) 0))
            (Fin (or_else (asNumber (opt_get (opt_get input ''assets'') ''savings'')) 0)))"

text \<open>
  \<^verbatim>\<open>Array.isArray(input?.assets?.recent_deposits) ? input.assets.recent_deposits : []\<close>
\<close>

definition recentDeposits :: "jsval \<Rightarrow> jsval option" where
  "recentDeposits input =
     (if isArray (opt_get (opt_get input ''assets'') ''recent_deposits'') then do {
        a \<leftarrow> get_prop input ''assets'';
        get_prop a ''recent_deposits''
      } else Some (JArr []))"

text \<open>The elements that \<open>.map\<close> visits: a TypeError unless the receiver is an array.\<close>

fun js_elems :: "jsval \<Rightarrow> jsval list option" where
  "js_elems (JArr xs) = Some xs"
| "js_elems _ = None"

text \<open>
  \<^verbatim>\<open>typeof input?.assets?.deposit_explanations === "string" &&
    input.assets.deposit_explanations.trim().length > 0\<close>
\<close>

definition depositsDocumented :: "jsval \<Rightarrow> bool option" where
  "depositsDocumented input =
     (if js_typeof (opt_get (opt_get input ''assets'') ''deposit_explanations'') = TString then do {
        a \<leftarrow> get_prop input ''assets'';
        e \<leftarrow> get_prop a ''deposit_explanations'';
        t \<leftarrow> js_trim e;
        Some (0 < length t)
      } else Some False)"

definition latePayments12mo :: "jsval \<Rightarrow> real" where
  "latePayments12mo input =
     or_else (asNumber (opt_get (opt_get input ''credit_history'') ''late_payments_12mo'')) 0"

definition latePayments24mo :: "jsval \<Rightarrow> real" where
  "latePayments24mo input =
     or_else (asNumber (opt_get (opt_get input ''credit_history'') ''late_payments_24mo'')) 0"

definition inquiries6mo :: "jsval \<Rightarrow> real" where
  "inquiries6mo input =
     or_else (asNumber (opt_get (opt_get input ''credit_history'') ''inquiries_6mo'')) 0"

definition employmentYears :: "jsval \<Rightarrow> real" where
  "employmentYears input =
     or_else (asNumber (opt_get (opt_get input ''employment'') ''years''))
       (or_else (asNumber (opt_get (opt_get input ''employment'') ''years_employed'')) 0)"

text \<open>
  \<^verbatim>\<open>String(input?.employment?.employment_gap ?? "").toLowerCase()\<close> and
  \<^verbatim>\<open>String(input?.property?.type ?? input?.loan?.property_type ?? "")\<close>:
  the two calls of \<open>String\<close> can throw.
\<close>

definition employmentGap :: "builtins \<Rightarrow> jsval \<Rightarrow> string option" where
  "employmentGap B input =
     map_option toLowerCase
       (js_String B (coalesce (opt_get (opt_get input ''employment'') ''employment_gap'') (JStr [])))"

definition propertyType :: "builtins \<Rightarrow> jsval \<Rightarrow> string option" where
  "propertyType B input =
     js_String B
       (coalesce (opt_get (opt_get input ''property'') ''type'')
          (coalesce (opt_get (opt_get input ''loan'') ''property_type'') (JStr [])))"

definition requiredRepairs :: "jsval \<Rightarrow> real" where
  "requiredRepairs input =
     or_else (asNumber (opt_get (opt_get input ''property'') ''required_repairs'')) 0"

subsection \<open>Stage 2: the metrics\<close>

text \<open>\<open>x || 0\<close> on a finite number.\<close>

definition num_or :: "real \<Rightarrow> real \<Rightarrow> real" where
  "num_or x y = (if x = 0 then y else x)"

text \<open>
  \<^verbatim>\<open>if (providedDtiRatio !== null && providedDtiRatio >= 0 && providedDtiRatio <= 1.5) {
    return providedDtiRatio;
  }
  return monthly_income > 0 ? total_obligations / monthly_income : Number.POSITIVE_INFINITY;\<close>
\<close>

definition dti_of :: "real option \<Rightarrow> real \<Rightarrow> jsnum \<Rightarrow> jsnum" where
  "dti_of provided income obligations =
     (case provided of
        Some p \<Rightarrow>
          if 0 \<le> p \<and> p \<le> 3 / 2 then Fin p
          else if 0 < income then js_div obligations (Fin income) else PosInf
      | None \<Rightarrow> if 0 < income then js_div obligations (Fin income) else PosInf)"

text \<open>
  \<^verbatim>\<open>appraised_value > 0 ? loan_amount / appraised_value : Number.POSITIVE_INFINITY\<close> and
  \<^verbatim>\<open>proposed_payment > 0 ? liquid_assets_total / proposed_payment : Number.POSITIVE_INFINITY\<close>
\<close>

definition ltv_of :: "real \<Rightarrow> real \<Rightarrow> jsnum" where
  "ltv_of loan appraised =
     (if 0 < appraised then js_div (Fin loan) (Fin appraised) else PosInf)"

definition reserves_of :: "jsnum \<Rightarrow> real \<Rightarrow> jsnum" where
  "reserves_of liquid payment = (if 0 < payment then js_div liquid (Fin payment) else PosInf)"

text \<open>\<^verbatim>\<open>Math.min(1000, 0.25 * (monthly_income || 0))\<close>\<close>

definition depositThreshold :: "jsval \<Rightarrow> jsnum" where
  "depositThreshold input =
     Math_min (Fin 1000) (js_mul (Fin (1 / 4)) (Fin (num_or (monthly_income input) 0)))"

record deposit =
  dep_date :: jsval
  dep_amount :: real
  dep_description :: jsval

text \<open>
  \<^verbatim>\<open>recentDeposits
    .map((d) => ({ date: d?.date, amount: asNumber(d?.amount) ?? 0, description: d?.description }))
    .filter((d) => d.amount >= depositThreshold)\<close>
\<close>

definition largeDeposits :: "jsnum \<Rightarrow> jsval list \<Rightarrow> deposit list" where
  "largeDeposits threshold ds =
     filter (\<lambda>d. js_le threshold (Fin (dep_amount d)))
       (map (\<lambda>d. \<lparr>dep_date = opt_get d ''date'',
                  dep_amount = or_else (asNumber (opt_get d ''amount'')) 0,
                  dep_description = opt_get d ''description''\<rparr>) ds)"

record metrics =
  m_credit_score :: real
  m_monthly_income :: real
  m_existing_debt :: jsnum
  m_proposed_payment :: real
  m_total_obligations :: jsnum
  m_dti :: jsnum
  m_loan_amount :: real
  m_appraised_value :: real
  m_ltv :: jsnum
  m_liquid_assets_total :: jsnum
  m_reserves_months :: jsnum
  m_large_deposit_threshold :: jsnum
  m_large_deposits :: "deposit list"

definition metrics_of :: "jsval \<Rightarrow> jsnum \<Rightarrow> jsval list \<Rightarrow> metrics" where
  "metrics_of input existing_debt deposits =
     (let total_obligations = js_add existing_debt (Fin (proposed_payment input)) in
      \<lparr>m_credit_score = credit_score input,
       m_monthly_income = monthly_income input,
       m_existing_debt = existing_debt,
       m_proposed_payment = proposed_payment input,
       m_total_obligations = total_obligations,
       m_dti = dti_of (providedDtiRatio input) (monthly_income input) total_obligations,
       m_loan_amount = loan_amount input,
       m_appraised_value = appraised_value input,
       m_ltv = ltv_of (loan_amount input) (appraised_value input),
       m_liquid_assets_total = liquid_assets_total input,
       m_reserves_months = reserves_of (liquid_assets_total input) (proposed_payment input),
       m_large_deposit_threshold = depositThreshold input,
       m_large_deposits = largeDeposits (depositThreshold input) deposits\<rparr>)"

subsection \<open>Stage 3: the rules\<close>

text \<open>
  \<open>reasons\<close> and \<open>conditions\<close> start empty and every rule pushes at most one message
  onto one of them. Each \<open>if\<close> block of the source is one definition here, returning what
  it pushes; the lists are the concatenation in source order. A test
  \<open>Number.isFinite(x)\<close> followed by a use of \<open>x\<close> is a case on the constructor \<open>Fin\<close>.
\<close>

text \<open>
  \<^verbatim>\<open>if (credit_score < 620) {
    reasons.push(`Credit score ${credit_score} is below minimum 620.`);
  }\<close>
\<close>

definition reason_credit :: "builtins \<Rightarrow> real \<Rightarrow> string list" where
  "reason_credit B cs =
     (if cs < 620 then [''Credit score '' @ numToString B (Fin cs) @ '' is below minimum 620.'']
      else [])"

text \<open>
  \<^verbatim>\<open>if (!Number.isFinite(dti)) {
    reasons.push("DTI could not be calculated (missing/invalid income).");
  } else if (dti > 0.50) {
    reasons.push(`DTI ${(dti * 100).toFixed(1)}% is above 50%.`);
  }\<close>
\<close>

definition reason_dti :: "builtins \<Rightarrow> jsnum \<Rightarrow> string list" where
  "reason_dti B dti =
     (case dti of
        Fin d \<Rightarrow>
          if 1 / 2 < d then
            [''DTI '' @ toFixed1 B (js_mul (Fin d) (Fin 100)) @ ''% is above 50%.'']
          else []
      | _ \<Rightarrow> [''DTI could not be calculated (missing/invalid income).''])"

text \<open>
  \<^verbatim>\<open>if (!Number.isFinite(ltv)) {
    reasons.push("LTV could not be calculated (missing/invalid appraisal or loan amount).");
  } else if (ltv > 0.97) {
    reasons.push(`LTV ${(ltv * 100).toFixed(1)}% is above 97%.`);
  }\<close>
\<close>

definition reason_ltv :: "builtins \<Rightarrow> jsnum \<Rightarrow> string list" where
  "reason_ltv B ltv =
     (case ltv of
        Fin l \<Rightarrow>
          if d0_97 < l then
            [''LTV '' @ toFixed1 B (js_mul (Fin l) (Fin 100)) @ ''% is above 97%.'']
          else []
      | _ \<Rightarrow> [''LTV could not be calculated (missing/invalid appraisal or loan amount).''])"

text \<open>
  \<^verbatim>\<open>if (!Number.isFinite(reserves_months)) {
    reasons.push("Reserves could not be calculated (missing/invalid payment or assets).");
  } else if (reserves_months < 2) {
    conditions.push(`Increase reserves to at least 2 months of PITI (currently ${reserves_months.toFixed(1)}).`);
  }\<close>
\<close>

definition reason_reserves :: "jsnum \<Rightarrow> string list" where
  "reason_reserves rm =
     (case rm of
        Fin r \<Rightarrow> []
      | _ \<Rightarrow> [''Reserves could not be calculated (missing/invalid payment or assets).''])"

definition condition_reserves :: "builtins \<Rightarrow> jsnum \<Rightarrow> string list" where
  "condition_reserves B rm =
     (case rm of
        Fin r \<Rightarrow>
          if r < 2 then
            [''Increase reserves to at least 2 months of PITI (currently ''
               @ toFixed1 B (Fin r) @ '').'']
          else []
      | _ \<Rightarrow> [])"

text \<open>
  \<^verbatim>\<open>if (latePayments12mo > 0) {
    conditions.push(`Provide letter of explanation for ${latePayments12mo} late payment(s) in the last 12 months.`);
  }
  if (latePayments12mo > 2) {
    reasons.push(`Late payments in last 12 months (${latePayments12mo}) exceed maximum of 2.`);
  }\<close>
\<close>

definition condition_late :: "builtins \<Rightarrow> real \<Rightarrow> string list" where
  "condition_late B lp =
     (if 0 < lp then
        [''Provide letter of explanation for '' @ numToString B (Fin lp)
           @ '' late payment(s) in the last 12 months.'']
      else [])"

definition reason_late :: "builtins \<Rightarrow> real \<Rightarrow> string list" where
  "reason_late B lp =
     (if 2 < lp then
        [''Late payments in last 12 months ('' @ numToString B (Fin lp)
           @ '') exceed maximum of 2.'']
      else [])"

text \<open>
  \<^verbatim>\<open>if (employmentYears > 0 && employmentYears < 2) { conditions.push(`Employment tenure is ...`); }
  if (employmentGap === "yes") { conditions.push("Employment gap reported; ..."); }\<close>
\<close>

definition condition_tenure :: "builtins \<Rightarrow> real \<Rightarrow> string list" where
  "condition_tenure B years =
     (if 0 < years \<and> years < 2 then
        [''Employment tenure is '' @ numToString B (Fin years)
           @ '' years; provide full 2-year employment history and verification (VOE, W-2s, paystubs) and document continuity.'']
      else [])"

definition condition_gap :: "string \<Rightarrow> string list" where
  "condition_gap gap =
     (if gap = ''yes'' then
        [''Employment gap reported; provide letter of explanation and supporting documentation.'']
      else [])"

text \<open>
  \<^verbatim>\<open>if (requiredRepairs > 0) {
    const holdbackLimit = Math.min(5000, 0.03 * (appraised_value || 0));
    conditions.push(`Property repairs required ($${requiredRepairs.toLocaleString()}): complete prior to closing or establish escrow holdback (policy limit ~ $${Math.round(holdbackLimit).toLocaleString()}).`);
  }\<close>
\<close>

definition condition_repairs :: "builtins \<Rightarrow> real \<Rightarrow> real \<Rightarrow> string list" where
  "condition_repairs B repairs appraised =
     (if 0 < repairs then
        (let holdbackLimit = Math_min (Fin 5000) (js_mul (Fin d0_03) (Fin (num_or appraised 0))) in
         [''Property repairs required ($'' @ toLocaleString B (Fin repairs)
            @ ''): complete prior to closing or establish escrow holdback (policy limit ~ $''
            @ toLocaleString B (Math_round holdbackLimit) @ '').''])
      else [])"

text \<open>
  \<^verbatim>\<open>if (propertyType.toLowerCase().includes("condo")) { conditions.push("Condominium: ..."); }\<close>
\<close>

definition condition_condo :: "string \<Rightarrow> string list" where
  "condition_condo ptype =
     (if str_includes (toLowerCase ptype) ''condo'' then
        [''Condominium: require project approval/review documentation (HOA budget, insurance, questionnaire, owner-occupancy, delinquencies, litigation).'']
      else [])"

text \<open>
  \<^verbatim>\<open>if (largeDeposits.length > 0 && !depositsDocumented) {
    conditions.push(`Provide documentation/sourcing for ${largeDeposits.length} large deposit(s).`);
  }\<close>
\<close>

definition condition_deposits :: "builtins \<Rightarrow> deposit list \<Rightarrow> bool \<Rightarrow> string list" where
  "condition_deposits B large documented =
     (if 0 < length large \<and> \<not> documented then
        [''Provide documentation/sourcing for '' @ numToString B (Fin (real (length large)))
           @ '' large deposit(s).'']
      else [])"

definition reasons_of :: "builtins \<Rightarrow> jsval \<Rightarrow> metrics \<Rightarrow> string list" where
  "reasons_of B input m =
     reason_credit B (m_credit_score m)
     @ reason_dti B (m_dti m)
     @ reason_ltv B (m_ltv m)
     @ reason_reserves (m_reserves_months m)
     @ reason_late B (latePayments12mo input)"

definition conditions_of ::
  "builtins \<Rightarrow> jsval \<Rightarrow> metrics \<Rightarrow> bool \<Rightarrow> string \<Rightarrow> string \<Rightarrow> string list"
where
  "conditions_of B input m documented gap ptype =
     condition_reserves B (m_reserves_months m)
     @ condition_late B (latePayments12mo input)
     @ condition_tenure B (employmentYears input)
     @ condition_gap gap
     @ condition_repairs B (requiredRepairs input) (m_appraised_value m)
     @ condition_condo ptype
     @ condition_deposits B (m_large_deposits m) documented"

subsection \<open>Stage 4: the risk score\<close>

text \<open>
  \<^verbatim>\<open>let risk_score = 0;
  risk_score += credit_score >= 740 ? 5 : credit_score >= 700 ? 15 : credit_score >= 660 ? 30 : credit_score >= 620 ? 45 : 70;
  risk_score += Number.isFinite(dti) ? Math.min(30, Math.max(0, (dti - 0.28) * 100)) : 30;
  risk_score += Number.isFinite(ltv) ? Math.min(25, Math.max(0, (ltv - 0.80) * 100)) : 25;
  risk_score += Number.isFinite(reserves_months) ? (reserves_months >= 6 ? 0 : reserves_months >= 2 ? 5 : 15) : 15;
  risk_score = Math.max(0, Math.min(100, Math.round(risk_score)));\<close>
\<close>

definition risk_credit :: "real \<Rightarrow> real" where
  "risk_credit cs =
     (if 740 \<le> cs then 5 else if 700 \<le> cs then 15 else if 660 \<le> cs then 30
      else if 620 \<le> cs then 45 else 70)"

definition risk_dti :: "jsnum \<Rightarrow> jsnum" where
  "risk_dti dti =
     (case dti of
        Fin d \<Rightarrow> Math_min (Fin 30) (Math_max (Fin 0) (js_mul (js_sub (Fin d) (Fin d0_28)) (Fin 100)))
      | _ \<Rightarrow> Fin 30)"

definition risk_ltv :: "jsnum \<Rightarrow> jsnum" where
  "risk_ltv ltv =
     (case ltv of
        Fin l \<Rightarrow> Math_min (Fin 25) (Math_max (Fin 0) (js_mul (js_sub (Fin l) (Fin d0_80)) (Fin 100)))
      | _ \<Rightarrow> Fin 25)"

definition risk_reserves :: "jsnum \<Rightarrow> real" where
  "risk_reserves rm =
     (case rm of Fin r \<Rightarrow> (if 6 \<le> r then 0 else if 2 \<le> r then 5 else 15) | _ \<Rightarrow> 15)"

definition risk_score_of :: "metrics \<Rightarrow> jsnum" where
  "risk_score_of m =
     (let r0 = Fin 0;
          r1 = js_add r0 (Fin (risk_credit (m_credit_score m)));
          r2 = js_add r1 (risk_dti (m_dti m));
          r3 = js_add r2 (risk_ltv (m_ltv m));
          r4 = js_add r3 (Fin (risk_reserves (m_reserves_months m)))
      in Math_max (Fin 0) (Math_min (Fin 100) (Math_round r4)))"

subsection \<open>Stage 5: the decision, the memo and the result\<close>

datatype decision = APPROVED | CONDITIONAL_APPROVAL | DENIED

text \<open>
  \<^verbatim>\<open>let final_decision: Decision = "APPROVED";
  const hardFail = reasons.length > 0;
  if (hardFail) {
    final_decision = "DENIED";
  } else if (conditions.length > 0) {
    final_decision = "CONDITIONAL_APPROVAL";
  }\<close>
\<close>

definition final_decision_of :: "string list \<Rightarrow> string list \<Rightarrow> decision" where
  "final_decision_of reasons conditions =
     (let hardFail = (0 < length reasons) in
      if hardFail then DENIED
      else if 0 < length conditions then CONDITIONAL_APPROVAL
      else APPROVED)"

fun decision_name :: "decision \<Rightarrow> string" where
  "decision_name APPROVED = ''APPROVED''"
| "decision_name CONDITIONAL_APPROVAL = ''CONDITIONAL_APPROVAL''"
| "decision_name DENIED = ''DENIED''"

text \<open>\<open>iso.split("T")[0]\<close>: the text before the first \<open>T\<close>.\<close>

definition iso_date :: "string \<Rightarrow> string" where
  "iso_date stamp = takeWhile (\<lambda>c. c \<noteq> CHR ''T'') stamp"

text \<open>
  \<^verbatim>\<open>Number.isFinite(dti) ? (dti * 100).toFixed(1) + "%" : "N/A"\<close> and
  \<^verbatim>\<open>Number.isFinite(reserves_months) ? reserves_months.toFixed(1) + " months" : "N/A"\<close>
\<close>

definition memo_percent :: "builtins \<Rightarrow> jsnum \<Rightarrow> string" where
  "memo_percent B x =
     (case x of Fin d \<Rightarrow> toFixed1 B (js_mul (Fin d) (Fin 100)) @ ''%'' | _ \<Rightarrow> ''N/A'')"

definition memo_months :: "builtins \<Rightarrow> jsnum \<Rightarrow> string" where
  "memo_months B x = (case x of Fin r \<Rightarrow> toFixed1 B (Fin r) @ '' months'' | _ \<Rightarrow> ''N/A'')"

text \<open>
  The memo: the lines of the template joined by a newline. \<open>stamp\<close> is what
  \<open>new Date().toISOString()\<close> returned when the memo was built, and \<open>cid\<close> the text
  of the case identity.
\<close>

definition decision_memo_of ::
  "builtins \<Rightarrow> string \<Rightarrow> string \<Rightarrow> metrics \<Rightarrow> jsnum \<Rightarrow> decision \<Rightarrow> string list \<Rightarrow> string list \<Rightarrow> string"
where
  "decision_memo_of B stamp cid m risk dec reasons conditions =
     join nl
       [''### RISK_SCORE: '' @ numToString B risk,
        [],
        ''### DECISION: '' @ decision_name dec,
        [],
        ''### CREDIT_MEMO:'',
        [],
        ''**To:** Loan File '' @ cid,
        ''**From:** Underwriting Engine (Rules v0)'',
        ''**Date:** '' @ iso_date stamp,
        ''**Subject:** Preliminary Underwriting Decision'',
        [],
        ''**Key Metrics:**'',
        ''- Credit Score: '' @ numToString B (Fin (m_credit_score m)),
        ''- DTI: '' @ memo_percent B (m_dti m),
        ''- LTV: '' @ memo_percent B (m_ltv m),
        ''- Reserves: '' @ memo_months B (m_reserves_months m),
        [],
        (if 0 < length reasons
         then ''**Denial Reasons:**'' @ nl @ ''- '' @ join (nl @ ''- '') reasons
         else ''**Denial Reasons:**'' @ nl @ ''- None''),
        [],
        (if 0 < length conditions
         then ''**Conditions (if applicable):**'' @ nl @ ''- '' @ join (nl @ ''- '') conditions
         else ''**Conditions (if applicable):**'' @ nl @ ''- None''),
        []]"

record result =
  r_case_id :: jsval
  r_final_decision :: decision
  r_risk_score :: jsnum
  r_metrics :: metrics
  r_conditions :: "string list"
  r_reasons :: "string list"
  r_decision_memo :: string
  r_raw_input :: jsval
  r_timestamp :: string

text \<open>
  The part of \<open>computeDecision\<close> that cannot throw: from the normalised fields to the
  returned object. \<open>iso1\<close> and \<open>iso2\<close> are the two texts that
  \<open>new Date().toISOString()\<close> returned, first for the date of the memo and then for the
  timestamp; \<open>gap\<close> and \<open>ptype\<close> are the results of the two calls of \<open>String\<close>, and
  \<open>cid_text\<close> is the case identity as the memo template prints it.
\<close>

definition build_result ::
  "builtins \<Rightarrow> string \<Rightarrow> string \<Rightarrow> jsval \<Rightarrow> jsval \<Rightarrow> jsnum \<Rightarrow> jsval list \<Rightarrow> bool
     \<Rightarrow> string \<Rightarrow> string \<Rightarrow> string \<Rightarrow> result"
where
  "build_result B iso1 iso2 input cid existing_debt deposits documented gap ptype cid_text =
     (let m = metrics_of input existing_debt deposits;
          conditions = conditions_of B input m documented gap ptype;
          reasons = reasons_of B input m;
          final_decision = final_decision_of reasons conditions;
          risk_score = risk_score_of m
      in \<lparr>r_case_id = cid,
          r_final_decision = final_decision,
          r_risk_score = risk_score,
          r_metrics = m,
          r_conditions = conditions,
          r_reasons = reasons,
          r_decision_memo =
            decision_memo_of B iso1 cid_text m risk_score final_decision reasons conditions,
          r_raw_input = input,
          r_timestamp = iso2\<rparr>)"

text \<open>
  \<open>computeDecision\<close>: the steps that can throw a TypeError, in source order, then the
  rest.
\<close>

definition computeDecision :: "builtins \<Rightarrow> string \<Rightarrow> string \<Rightarrow> jsval \<Rightarrow> result option" where
  "computeDecision B iso1 iso2 input = do {
     cid \<leftarrow> case_id input;
     existing_debt \<leftarrow> sumDebts (opt_get input ''debts'');
     recent \<leftarrow> recentDeposits input;
     deposits \<leftarrow> js_elems recent;
     documented \<leftarrow> depositsDocumented input;
     gap \<leftarrow> employmentGap B input;
     ptype \<leftarrow> propertyType B input;
     cid_text \<leftarrow> js_String B cid;
     Some (build_result B iso1 iso2 input cid existing_debt deposits documented gap ptype cid_text)
   }"

subsection \<open>A runtime for concrete cases\<close>

text \<open>
  Every theorem below holds for all \<open>builtins\<close>. To run the model on a concrete case one
  instance is fixed. It prints integers of magnitude below \<open>10^21\<close> the way every
  JavaScript runtime does; \<open>toFixed(1)\<close> picks the nearest tenth of the double, the
  larger one on a tie; \<open>toLocaleString()\<close> is that of the \<open>en-US\<close> locale (groups of three
  digits, at most three decimals). The shortest decimal of a double that is not an
  integer is not modelled: \<open>numToString\<close> prints \<open>?\<close> for it, and the cases below
  render integers only.
\<close>

function show_pos :: "int \<Rightarrow> string" where
  "show_pos i =
     (if i < 10 then [char_of (48 + i)] else show_pos (i div 10) @ [char_of (48 + i mod 10)])"
  by pat_completeness auto
termination
  by (relation "measure nat") auto

declare show_pos.simps [simp del]

definition show_int :: "int \<Rightarrow> string" where
  "show_int i = (if i < 0 then ''-'' @ show_pos (- i) else show_pos i)"

definition plain_numToString :: "jsnum \<Rightarrow> string" where
  "plain_numToString x =
     (case x of
        Fin r \<Rightarrow> if r = of_int \<lfloor>r\<rfloor> then show_int \<lfloor>r\<rfloor> else ''?''
      | PosInf \<Rightarrow> ''Infinity''
      | NegInf \<Rightarrow> ''-Infinity''
      | NaN \<Rightarrow> ''NaN'')"

definition plain_toFixed1 :: "jsnum \<Rightarrow> string" where
  "plain_toFixed1 x =
     (case x of
        Fin r \<Rightarrow>
          (let n = \<lfloor>\<bar>r\<bar> * 10 + 1 / 2\<rfloor> in
           (if r < 0 then ''-'' else []) @ show_pos (n div 10) @ ''.'' @ show_pos (n mod 10))
      | PosInf \<Rightarrow> ''Infinity''
      | NegInf \<Rightarrow> ''-Infinity''
      | NaN \<Rightarrow> ''NaN'')"

fun group3 :: "string \<Rightarrow> string" where
  "group3 ds =
     (if length ds \<le> 3 then ds
      else group3 (take (length ds - 3) ds) @ '','' @ drop (length ds - 3) ds)"

declare group3.simps [simp del]

definition plain_toLocaleString :: "jsnum \<Rightarrow> string" where
  "plain_toLocaleString x =
     (case x of
        Fin r \<Rightarrow>
          (let n = \<lfloor>\<bar>r\<bar> * 1000 + 1 / 2\<rfloor>;
               f = n mod 1000;
               ds = show_pos (f div 100) @ show_pos (f mod 100 div 10) @ show_pos (f mod 10)
           in (if r < 0 \<and> 0 < n then ''-'' else []) @ group3 (show_pos (n div 1000))
              @ (if f = 0 then [] else ''.'' @ rev (dropWhile (\<lambda>c. c = CHR ''0'') (rev ds))))
      | PosInf \<Rightarrow> [CHR 0xE2, CHR 0x88, CHR 0x9E]
      | NegInf \<Rightarrow> ''-'' @ [CHR 0xE2, CHR 0x88, CHR 0x9E]
      | NaN \<Rightarrow> ''NaN'')"

definition plain :: builtins where
  "plain = \<lparr>numToString = plain_numToString, toFixed1 = plain_toFixed1,
            toLocaleString = plain_toLocaleString\<rparr>"

section \<open>The statements of the specification\<close>

text \<open>
  The definitions of this section follow the words of the specification, not the code;
  the theorems compare them with the code.
\<close>

text \<open>
  A value is numeric when it is a native number or a numeric string, a string that
  \<open>Number\<close> reads as a number; as everywhere in the engine, the number has to be finite.
\<close>

definition numeric :: "jsval \<Rightarrow> bool" where
  "numeric v =
     (case v of JNum n \<Rightarrow> isFinite n | JStr s \<Rightarrow> isFinite (str_to_number s) | _ \<Rightarrow> False)"

text \<open>A field that is zero or absent, after \<open>asNumber\<close>.\<close>

definition zero_or_absent :: "real option \<Rightarrow> bool" where
  "zero_or_absent x = (x = None \<or> x = Some 0)"

text \<open>A supplied ratio is authoritative when it is a number in the interval from 0 to 1.5.\<close>

definition authoritative :: "real option \<Rightarrow> bool" where
  "authoritative p = (case p of Some x \<Rightarrow> 0 \<le> x \<and> x \<le> 3 / 2 | None \<Rightarrow> False)"

text \<open>
  The ratio as the specification words it: the supplied ratio when authoritative, else
  obligations over income, and positive infinity when the income is zero or absent.
\<close>

definition spec_dti :: "jsval \<Rightarrow> jsnum \<Rightarrow> jsnum" where
  "spec_dti input existing_debt =
     (let computed =
        (if zero_or_absent (asNumber (opt_get (opt_get input ''employment'') ''monthly_income''))
         then PosInf
         else js_div (js_add existing_debt (Fin (proposed_payment input)))
                (Fin (monthly_income input)))
      in case asNumber (opt_get input ''dti_ratio'') of
           Some p \<Rightarrow> if 0 \<le> p \<and> p \<le> 3 / 2 then Fin p else computed
         | None \<Rightarrow> computed)"


text \<open>The sum of a list of numbers, accumulated from 0 from left to right.\<close>

definition js_sum :: "jsnum list \<Rightarrow> jsnum" where
  "js_sum xs = foldl js_add (Fin 0) xs"





text \<open>
  The line items of a debts record other than the aggregate field: those that
  \<open>asNumber\<close> coerces, a number or a numeric string, and those that are native numbers.
\<close>

fun coercible_line_items :: "(string \<times> jsval) list \<Rightarrow> jsnum list" where
  "coercible_line_items [] = []"
| "coercible_line_items ((k, v) # kvs) =
     (if k \<noteq> ''total_monthly_debt'' then
        (case asNumber v of
           Some x \<Rightarrow> Fin x # coercible_line_items kvs
         | None \<Rightarrow> coercible_line_items kvs)
      else coercible_line_items kvs)"

fun native_line_items :: "(string \<times> jsval) list \<Rightarrow> jsnum list" where
  "native_line_items [] = []"
| "native_line_items ((k, v) # kvs) =
     (if k \<noteq> ''total_monthly_debt'' then
        (case v of
           JNum n \<Rightarrow> n # native_line_items kvs
         | _ \<Rightarrow> native_line_items kvs)
      else native_line_items kvs)"

text \<open>
  The total of a debts record as the specification words it, with the coercion rule
  applied to the line items.
\<close>

definition spec_sumDebts :: "(string \<times> jsval) list \<Rightarrow> jsnum" where
  "spec_sumDebts kvs =
     (case asNumber (read_prop (JObj kvs) ''total_monthly_debt'') of
        Some t \<Rightarrow> Fin t
      | None \<Rightarrow> js_sum (coercible_line_items kvs))"

section \<open>Concrete cases\<close>

text \<open>Two readings of the clock within one evaluation, and two on the next day.\<close>

definition morning :: string where
  "morning = ''2026-11-03T09:15:00.000Z''"

definition morning' :: string where
  "morning' = ''2026-11-03T09:15:00.002Z''"

definition next_day :: string where
  "next_day = ''2026-11-04T09:15:00.000Z''"

definition next_day' :: string where
  "next_day' = ''2026-11-04T09:15:00.002Z''"

text \<open>
  A clean case in the manner of scenario A of the specification, all of whose numbers
  are doubles: score 750, a supplied ratio of 0.25, a loan of 200000 on an appraisal of
  400000, a payment of 1500 and 60000 of liquid assets.
\<close>

definition scenario_A :: jsval where
  "scenario_A =
     JObj [(''case_id'', JStr ''A-1''),
           (''credit_score'', JNum (Fin 750)),
           (''dti_ratio'', JNum (Fin (1 / 4))),
           (''employment'', JObj [(''monthly_income'', JNum (Fin 8000)), (''years'', JNum (Fin 5))]),
           (''loan'', JObj [(''amount'', JNum (Fin 200000)), (''monthly_piti'', JNum (Fin 1500))]),
           (''property'', JObj [(''appraised_value'', JNum (Fin 400000)), (''type'', JStr ''single_family'')]),
           (''assets'', JObj [(''liquid_assets_total'', JNum (Fin 60000))]),
           (''debts'', JObj [(''car_loan'', JNum (Fin 300))])]"


text \<open>The same case without its credit score.\<close>

definition no_score_case :: jsval where
  "no_score_case =
     JObj [(''case_id'', JStr ''A-2''),
           (''dti_ratio'', JNum (Fin (1 / 4))),
           (''employment'', JObj [(''monthly_income'', JNum (Fin 8000)), (''years'', JNum (Fin 5))]),
           (''loan'', JObj [(''amount'', JNum (Fin 200000)), (''monthly_piti'', JNum (Fin 1500))]),
           (''property'', JObj [(''appraised_value'', JNum (Fin 400000)), (''type'', JStr ''single_family'')]),
           (''assets'', JObj [(''liquid_assets_total'', JNum (Fin 60000))]),
           (''debts'', JObj [(''car_loan'', JNum (Fin 300))])]"

text \<open>The same case with three late payments in the last twelve months.\<close>

definition late_case :: jsval where
  "late_case =
     JObj [(''case_id'', JStr ''A-3''),
           (''credit_score'', JNum (Fin 750)),
           (''dti_ratio'', JNum (Fin (1 / 4))),
           (''credit_history'', JObj [(''late_payments_12mo'', JNum (Fin 3))]),
           (''employment'', JObj [(''monthly_income'', JNum (Fin 8000)), (''years'', JNum (Fin 5))]),
           (''loan'', JObj [(''amount'', JNum (Fin 200000)), (''monthly_piti'', JNum (Fin 1500))]),
           (''property'', JObj [(''appraised_value'', JNum (Fin 400000)), (''type'', JStr ''single_family'')]),
           (''assets'', JObj [(''liquid_assets_total'', JNum (Fin 60000))]),
           (''debts'', JObj [(''car_loan'', JNum (Fin 300))])]"

text \<open>A case with a negative monthly income and no supplied ratio.\<close>

definition negative_income_case :: jsval where
  "negative_income_case =
     JObj [(''case_id'', JStr ''N-1''),
           (''employment'', JObj [(''monthly_income'', JNum (Fin (- 1000)))]),
           (''loan'', JObj [(''monthly_piti'', JNum (Fin 500))])]"

text \<open>A case with a monthly income, a payment and a debt, and no supplied ratio.\<close>

definition computed_dti_case :: jsval where
  "computed_dti_case =
     JObj [(''case_id'', JStr ''N-2''),
           (''employment'', JObj [(''monthly_income'', JNum (Fin 4000))]),
           (''loan'', JObj [(''monthly_piti'', JNum (Fin 1500))]),
           (''debts'', JObj [(''car_loan'', JNum (Fin 500))])]"

text \<open>A debts record whose first line item is a numeric string.\<close>

definition string_debts :: "(string \<times> jsval) list" where
  "string_debts = [(''car_loan'', JStr ''300''), (''credit_card'', JNum (Fin 50))]"

text \<open>
  The JSON text \<^verbatim>\<open>{"employment": {"employment_gap": {"toString": 1}}}\<close>: an employment
  gap that is an object with a key \<open>toString\<close>.
\<close>

definition toString_case :: jsval where
  "toString_case =
     JObj [(''employment'', JObj [(''employment_gap'', JObj [(''toString'', JNum (Fin 1))])])]"

section \<open>Properties\<close>

subsection \<open>Rounding to binary64\<close>

text \<open>
  \<open>pow2\<close> is the power of two, and the exponent that \<open>fl\<close> computes is not above the
  binary logarithm of the magnitude.
\<close>

lemma ipow_eq: "ipow b e = b ^ nat e"
proof (induction b e rule: ipow.induct)
  case (1 b e)
  show ?case
  proof (cases "e \<le> 0")
    case True
    then show ?thesis by (simp add: ipow.simps)
  next
    case False
    then have pos: "0 < e" by simp
    have h: "ipow b (e div 2) = b ^ nat (e div 2)"
      using 1 False by (cases "e mod 2 = 0") simp_all
    show ?thesis
    proof (cases "e mod 2 = 0")
      case True
      then have "e = e div 2 + e div 2" by presburger
      then have "nat e = nat (e div 2 + e div 2)" by simp
      then have "nat e = nat (e div 2) + nat (e div 2)"
        using pos by (simp add: nat_add_distrib)
      then show ?thesis
        using False True h by (simp add: ipow.simps [of b e] sq_def power_add)
    next
      case odd: False
      then have "e = e div 2 + e div 2 + 1" by presburger
      then have "nat e = nat (e div 2 + e div 2 + 1)" by simp
      then have "nat e = Suc (nat (e div 2) + nat (e div 2))"
        using pos by (simp add: nat_add_distrib)
      then show ?thesis
        using False odd h by (simp add: ipow.simps [of b e] sq_def power_add)
    qed
  qed
qed

lemma pow2_powi: "pow2 e = 2 powi e"
  by (simp add: pow2_def ipow_eq power_int_def power_one_over)

lemma pow2_pos: "0 < pow2 e"
  by (simp add: pow2_powi)

lemma pow2_add: "pow2 (a + b) = pow2 a * pow2 b"
  by (simp add: pow2_powi power_int_add)

lemma pow2_mono: "a \<le> b \<Longrightarrow> pow2 a \<le> pow2 b"
  by (simp add: pow2_powi power_int_increasing)

lemma pow2_nat: "0 \<le> e \<Longrightarrow> pow2 e = of_int (2 ^ nat e)"
  by (simp add: pow2_def ipow_eq)

lemma bitlen_lower: "0 < m \<Longrightarrow> pow2 (bitlen m - 1) \<le> of_int m"
proof -
  assume m: "0 < m"
  then have b: "1 \<le> bitlen m"
    by (simp add: bitlen_alt_def)
  have "2 ^ nat (bitlen m - 1) \<le> m"
    using bitlen_bounds [OF m] by simp
  then have "real_of_int (2 ^ nat (bitlen m - 1)) \<le> of_int m"
    by (rule of_int_le_iff [THEN iffD2])
  then show ?thesis
    using b by (simp add: pow2_nat)
qed

lemma bitlen_upper: "0 < m \<Longrightarrow> of_int m < pow2 (bitlen m)"
proof -
  assume m: "0 < m"
  have "m < 2 ^ nat (bitlen m)"
    using bitlen_bounds [OF m] by simp
  then have "real_of_int m < of_int (2 ^ nat (bitlen m))"
    by (rule of_int_less_iff [THEN iffD2])
  then show ?thesis
    using bitlen_nonneg [of m] by (simp add: pow2_nat)
qed

lemma exponent_lower: "x \<noteq> 0 \<Longrightarrow> exponent x = - 1022 \<or> pow2 (exponent x) \<le> \<bar>x\<bar>"
proof (cases "1 \<le> \<bar>x\<bar>")
  case True
  then have "0 < \<lfloor>\<bar>x\<bar>\<rfloor>" by linarith
  then have "pow2 (bitlen \<lfloor>\<bar>x\<bar>\<rfloor> - 1) \<le> of_int \<lfloor>\<bar>x\<bar>\<rfloor>"
    by (rule bitlen_lower)
  also have "\<dots> \<le> \<bar>x\<bar>" by simp
  finally show ?thesis
    using True by (simp add: exponent_def Let_def)
next
  case False
  assume nz: "x \<noteq> 0"
  let ?a = "\<bar>x\<bar>"
  let ?b = "bitlen \<lfloor>1 / ?a\<rfloor>"
  have a: "0 < ?a" "?a < 1" using nz False by simp_all
  then have "1 < 1 / ?a" by simp
  then have m: "0 < \<lfloor>1 / ?a\<rfloor>" by linarith
  have "1 / ?a < of_int \<lfloor>1 / ?a\<rfloor> + 1" by linarith
  also have "\<dots> \<le> pow2 ?b"
  proof -
    have "\<lfloor>1 / ?a\<rfloor> < 2 ^ nat ?b"
      using bitlen_bounds [OF m] by simp
    then have "\<lfloor>1 / ?a\<rfloor> + 1 \<le> 2 ^ nat ?b" by simp
    then have "real_of_int (\<lfloor>1 / ?a\<rfloor> + 1) \<le> of_int (2 ^ nat ?b)"
      by (rule of_int_le_iff [THEN iffD2])
    then show ?thesis
      using bitlen_nonneg [of "\<lfloor>1 / ?a\<rfloor>"] by (simp add: pow2_nat)
  qed
  finally have "1 / ?a < pow2 ?b" .
  then have "1 < pow2 ?b * ?a"
    using a by (simp add: field_simps)
  moreover have "pow2 (- ?b) * pow2 ?b = 1"
    using pow2_add [of "- ?b" ?b] by (simp add: pow2_def ipow.simps)
  ultimately have low: "pow2 (- ?b) \<le> ?a"
    using pow2_pos [of ?b] pow2_pos [of "- ?b"]
    by (smt (verit, best) mult.assoc mult_le_cancel_left_pos mult.right_neutral mult.commute)
  let ?e = "if pow2 (1 - ?b) \<le> ?a then 1 - ?b else - ?b"
  have e: "pow2 ?e \<le> ?a" using low by simp
  have ex: "exponent x = max ?e (- 1022)"
    using False by (simp add: exponent_def Let_def)
  show ?thesis
  proof (cases "?e \<le> - 1022")
    case True
    then show ?thesis unfolding ex by (simp add: max_def)
  next
    case False
    then have "max ?e (- 1022) = ?e" by (simp add: max_def)
    then show ?thesis unfolding ex using e by simp
  qed
qed

lemma round_even_ge: "of_int j \<le> q \<Longrightarrow> j \<le> round_even q"
proof -
  assume "of_int j \<le> q"
  then have "j \<le> \<lfloor>q\<rfloor>" by (simp add: le_floor_iff)
  then show ?thesis by (simp add: round_even_def Let_def)
qed

lemma round_even_le: "q \<le> of_int j \<Longrightarrow> round_even q \<le> j"
proof -
  assume q: "q \<le> of_int j"
  then have f: "\<lfloor>q\<rfloor> \<le> j" by (simp add: floor_le_iff) 
  show ?thesis
  proof (cases "q = of_int \<lfloor>q\<rfloor>")
    case True
    then have "q - of_int \<lfloor>q\<rfloor> = 0" by simp
    then show ?thesis using f by (simp add: round_even_def Let_def)
  next
    case False
    then have "of_int \<lfloor>q\<rfloor> < q"
      using of_int_floor_le [of q] by linarith
    then have "of_int \<lfloor>q\<rfloor> < (of_int j :: real)" using q by linarith
    then have "\<lfloor>q\<rfloor> + 1 \<le> j" by simp
    then show ?thesis by (simp add: round_even_def Let_def)
  qed
qed

lemma round_even_minus: "round_even (- q) = - round_even q"
proof (cases "q = of_int \<lfloor>q\<rfloor>")
  case True
  then obtain j :: int where j: "q = of_int j" ..
  have "- q = of_int (- j)" by (simp add: j)
  then have "\<lfloor>- q\<rfloor> = - j" by (metis floor_of_int)
  then show ?thesis by (simp add: round_even_def Let_def j)
next
  case False
  then have lt: "of_int \<lfloor>q\<rfloor> < q"
    using of_int_floor_le [of q] by linarith
  have a: "q < of_int \<lfloor>q\<rfloor> + 1" by linarith
  have "\<lfloor>- q\<rfloor> = - \<lfloor>q\<rfloor> - 1"
  proof (rule floor_unique)
    show "of_int (- \<lfloor>q\<rfloor> - 1) \<le> - q" using a by (simp, linarith)
    show "- q < of_int (- \<lfloor>q\<rfloor> - 1) + 1" using lt by simp
  qed
  then show ?thesis
    using lt by (auto simp: round_even_def Let_def)
qed

lemma exponent_minus: "exponent (- x) = exponent x"
  by (simp add: exponent_def)

lemma fl_minus: "fl (- x) = js_neg (fl x)"
proof (cases "x = 0")
  case True
  then show ?thesis by (simp add: fl_def)
next
  case False
  have "round_even (- x / pow2 (exponent x - 52)) = - round_even (x / pow2 (exponent x - 52))"
    using round_even_minus [of "x / pow2 (exponent x - 52)"] by simp
  then show ?thesis
    using False by (auto simp: fl_def Let_def exponent_minus)
qed

lemma overflow_magnitude:
  assumes "1076 < bitlen \<bar>n\<bar> + e" and "e \<le> 52"
  shows "pow2 1024 \<le> of_int \<bar>n\<bar> * pow2 (e - 52)"
proof -
  have b: "1024 < bitlen \<bar>n\<bar>"
    using assms by linarith
  then have pos: "0 < \<bar>n\<bar>"
    by (metis abs_ge_zero bitlen_eq_zero_iff less_le not_less zero_less_numeral order.strict_trans)
  have "pow2 (1076 - e) \<le> pow2 (bitlen \<bar>n\<bar> - 1)"
    using assms by (intro pow2_mono) linarith
  also have "\<dots> \<le> of_int \<bar>n\<bar>"
    by (rule bitlen_lower [OF pos])
  finally have "pow2 (1076 - e) * pow2 (e - 52) \<le> of_int \<bar>n\<bar> * pow2 (e - 52)"
    using pow2_pos [of "e - 52"] by simp
  moreover have "pow2 (1076 - e) * pow2 (e - 52) = pow2 1024"
    using pow2_add [of "1076 - e" "e - 52"] by simp
  ultimately show ?thesis by simp
qed

lemma pow2_52: "pow2 52 = 4503599627370496"
  by (simp add: pow2_def ipow.simps sq_def)

lemma pow2_53: "pow2 53 = 9007199254740992"
  by (simp add: pow2_def ipow.simps sq_def)

lemma fl_lower:
  assumes kx: "of_int k \<le> x" and k: "\<bar>k\<bar> \<le> 4503599627370496"
  shows "js_le (Fin (of_int k)) (fl x)"
proof (cases "x = 0")
  case True
  then show ?thesis using kx by (simp add: fl_def)
next
  case nz: False
  define e where "e = exponent x"
  define u where "u = pow2 (e - 52)"
  define n where "n = round_even (x / u)"
  have u: "0 < u" by (simp add: u_def pow2_pos)
  have fl: "fl x = (if 1076 < bitlen \<bar>n\<bar> + e then (if 0 < x then PosInf else NegInf)
                    else Fin (of_int n * u))"
    using nz by (simp add: fl_def Let_def e_def u_def n_def)
  have kr: "\<bar>real_of_int k\<bar> \<le> 4503599627370496"
    using k by (metis of_int_abs of_int_le_iff of_int_numeral)
  show ?thesis
  proof (cases "e \<le> 52")
    case small: True
    have inv: "1 / u = of_int (2 ^ nat (52 - e))"
    proof -
      have "pow2 (52 - e) * pow2 (e - 52) = 1"
        using pow2_add [of "52 - e" "e - 52"] by (simp add: pow2_def ipow.simps)
      then have "1 / u = pow2 (52 - e)"
        using u by (simp add: u_def field_simps)
      then show ?thesis using small by (simp add: pow2_nat)
    qed
    define j where "j = k * 2 ^ nat (52 - e)"
    have "of_int j = of_int k * (1 / u)"
      by (simp add: j_def inv)
    also have "\<dots> \<le> x * (1 / u)"
      using kx u by (intro mult_right_mono) simp_all
    finally have "of_int j \<le> x / u" by simp
    then have jn: "j \<le> n"
      unfolding n_def by (rule round_even_ge)
    have iu: "of_int (2 ^ nat (52 - e)) * u = 1"
      using inv u by (simp add: field_simps)
    have "of_int j * u = of_int k * (of_int (2 ^ nat (52 - e)) * u)"
      by (simp add: j_def)
    then have "of_int k = of_int j * u"
      by (simp only: iu mult_1_right)
    also have "\<dots> \<le> of_int n * u"
      using jn u by (intro mult_right_mono) simp_all
    finally have kn: "of_int k \<le> of_int n * u" .
    show ?thesis
    proof (cases "1076 < bitlen \<bar>n\<bar> + e")
      case False
      then show ?thesis using fl kn by simp
    next
      case over: True
      show ?thesis
      proof (cases "0 < x")
        case True
        then show ?thesis using fl over by simp
      next
        case False
        then have "x / u \<le> of_int 0" using u by (simp add: divide_le_0_iff)
        then have "n \<le> 0" unfolding n_def by (rule round_even_le)
        then have "of_int n * u = - (of_int \<bar>n\<bar> * u)" by simp
        moreover have "pow2 1024 \<le> of_int \<bar>n\<bar> * u"
          unfolding u_def by (rule overflow_magnitude [OF over small])
        moreover have "pow2 53 \<le> pow2 1024" by (rule pow2_mono) simp
        ultimately have "of_int n * u \<le> - pow2 53" by linarith
        then have False using kn kr by (simp add: pow2_53)
        then show ?thesis ..
      qed
    qed
  next
    case big: False
    then have "e \<noteq> - 1022" by simp
    then have ex: "pow2 e \<le> \<bar>x\<bar>"
      using exponent_lower [OF nz] by (simp add: e_def)
    have p53: "pow2 52 \<le> pow2 e" using big by (intro pow2_mono) simp
    have xpos: "0 < x"
    proof (rule ccontr)
      assume "\<not> 0 < x"
      then have "\<bar>x\<bar> = - x" by simp
      then have "\<bar>x\<bar> \<le> - of_int k" using kx by simp
      then have "pow2 e \<le> - of_int k" using ex by simp
      moreover have "pow2 53 \<le> pow2 e" using big by (intro pow2_mono) simp
      ultimately show False using kr by (simp add: pow2_53)
    qed
    have "pow2 52 * u = pow2 e"
      using pow2_add [of 52 "e - 52"] by (simp add: u_def)
    then have "of_int 4503599627370496 \<le> x / u"
      using ex xpos u by (simp add: pow2_52 field_simps)
    then have "4503599627370496 \<le> n"
      unfolding n_def by (rule round_even_ge)
    then have "real_of_int 4503599627370496 \<le> of_int n"
      by (rule of_int_le_iff [THEN iffD2])
    then have "4503599627370496 * u \<le> of_int n * u"
      using u by (intro mult_right_mono) simp_all
    moreover have "of_int k \<le> 4503599627370496 * u"
      using \<open>pow2 52 * u = pow2 e\<close> p53 kr by (simp add: pow2_52)
    ultimately have "of_int k \<le> of_int n * u" by linarith
    then show ?thesis using fl xpos by simp
  qed
qed

lemma js_le_neg: "js_le (js_neg a) (js_neg b) = js_le b a"
  by (cases a; cases b) simp_all

lemma fl_upper:
  assumes "x \<le> of_int k" and "\<bar>k\<bar> \<le> 4503599627370496"
  shows "js_le (fl x) (Fin (of_int k))"
proof -
  have "js_le (Fin (of_int (- k))) (fl (- x))"
    using assms by (intro fl_lower) simp_all
  then have "js_le (js_neg (Fin (of_int k))) (js_neg (fl x))"
    by (simp add: fl_minus)
  then show ?thesis by (simp only: js_le_neg)
qed

lemma fl_between:
  assumes "of_int a \<le> x" "x \<le> of_int b"
    and "\<bar>a\<bar> \<le> 4503599627370496" "\<bar>b\<bar> \<le> 4503599627370496"
  shows "\<exists>y. fl x = Fin y \<and> of_int a \<le> y \<and> y \<le> of_int b"
  using fl_lower [OF assms(1) assms(3)] fl_upper [OF assms(2) assms(4)]
  by (cases "fl x") simp_all

lemma fl_int: "\<bar>k\<bar> \<le> 4503599627370496 \<Longrightarrow> fl (of_int k) = Fin (of_int k)"
  using fl_between [of k "of_int k" k] by auto

lemma fl_not_NaN: "fl x \<noteq> NaN"
  by (simp add: fl_def Let_def)

text \<open>
  The integers up to \<open>2^52\<close> are doubles. Evaluation takes this shortcut.
\<close>

lemma fl_code [code]:
  "fl x =
     (if x = of_int \<lfloor>x\<rfloor> \<and> \<bar>x\<bar> \<le> 4503599627370496 then Fin x
      else if x = 0 then Fin 0
      else
        (let e = exponent x;
             u = pow2 (e - 52);
             n = round_even (x / u)
         in if 1076 < bitlen \<bar>n\<bar> + e then (if 0 < x then PosInf else NegInf)
            else Fin (of_int n * u)))"
proof (cases "x = of_int \<lfloor>x\<rfloor> \<and> \<bar>x\<bar> \<le> 4503599627370496")
  case True
  then have x: "x = of_int \<lfloor>x\<rfloor>" and "\<bar>real_of_int \<lfloor>x\<rfloor>\<bar> \<le> 4503599627370496" by simp_all
  then have "\<bar>\<lfloor>x\<rfloor>\<bar> \<le> 4503599627370496"
    by (metis of_int_abs of_int_le_iff of_int_numeral)
  then have "fl (of_int \<lfloor>x\<rfloor>) = Fin (of_int \<lfloor>x\<rfloor>)" by (rule fl_int)
  then show ?thesis using True x by simp
next
  case False
  then show ?thesis unfolding fl_def by (simp only: if_False)
qed

lemma fl_small_numeral:
  "fl 0 = Fin 0" "fl 5 = Fin 5" "fl 15 = Fin 15" "fl 30 = Fin 30" "fl 45 = Fin 45" "fl 70 = Fin 70"
  using fl_int [of 0] fl_int [of 5] fl_int [of 15] fl_int [of 30] fl_int [of 45] fl_int [of 70]
  by simp_all

subsection \<open>Arithmetic never yields NaN on finite operands\<close>

lemma js_add_Fin: "js_add (Fin a) (Fin b) \<noteq> NaN"
  by (simp add: fl_not_NaN)

lemma js_add_between:
  assumes "of_int a \<le> x + y" "x + y \<le> of_int b"
    and "\<bar>a\<bar> \<le> 4503599627370496" "\<bar>b\<bar> \<le> 4503599627370496"
  shows "\<exists>s. js_add (Fin x) (Fin y) = Fin s \<and> of_int a \<le> s \<and> s \<le> of_int b"
  using fl_between [OF assms] by simp

lemma scaled_difference_not_NaN: "js_mul (js_sub (Fin d) (Fin c)) (Fin 100) \<noteq> NaN"
proof -
  have "js_sub (Fin d) (Fin c) = fl (d - c)" by (simp add: js_sub_def)
  then show ?thesis
    by (cases "fl (d - c)") (simp_all add: fl_not_NaN)
qed

lemma clamp_bounds:
  assumes "v \<noteq> NaN" and "lo \<le> hi"
  shows "\<exists>z. Math_min (Fin hi) (Math_max (Fin lo) v) = Fin z \<and> lo \<le> z \<and> z \<le> hi"
  using assms by (cases v) (auto simp: Math_min_def Math_max_def)


subsection \<open>The steps that can throw\<close>

text \<open>
  Each unguarded property access of the source sits behind a test that only a value with
  that property passes, so none of them fails. The two calls of \<open>String\<close> on a field of
  the input are the only steps that can fail.
\<close>

lemma get_prop_opt_get: "\<not> nullish v \<Longrightarrow> get_prop v k = Some (opt_get v k)"
  by (simp add: get_prop_def opt_get_def)

lemma opt_get_nullish: "nullish v \<Longrightarrow> opt_get v k = JUndefined"
  by (simp add: opt_get_def)

lemma case_id_Some: "\<exists>s. case_id input = Some (JStr s)"
proof (cases "js_typeof (opt_get input ''case_id'') = TString")
  case False
  then show ?thesis by (simp add: case_id_def)
next
  case True
  then obtain s where s: "opt_get input ''case_id'' = JStr s"
    by (cases "opt_get input ''case_id''") simp_all
  then have "\<not> nullish input"
    by (auto simp: opt_get_nullish)
  then show ?thesis
    using True s by (simp add: case_id_def get_prop_opt_get)
qed

lemma sumDebts_Some: "\<exists>n. sumDebts d = Some n"
  by (cases d) (simp_all add: sumDebts_def get_prop_def split: option.split)

lemma recentDeposits_Some: "\<exists>xs. recentDeposits input = Some (JArr xs)"
proof (cases "isArray (opt_get (opt_get input ''assets'') ''recent_deposits'')")
  case False
  then show ?thesis by (simp add: recentDeposits_def)
next
  case True
  then obtain xs where xs: "opt_get (opt_get input ''assets'') ''recent_deposits'' = JArr xs"
    by (cases "opt_get (opt_get input ''assets'') ''recent_deposits''") simp_all
  have n1: "\<not> nullish (opt_get input ''assets'')"
    using xs by (auto simp: opt_get_nullish)
  then have n0: "\<not> nullish input"
    by (auto simp: opt_get_nullish)
  show ?thesis
    using True xs by (simp add: recentDeposits_def get_prop_opt_get [OF n0] get_prop_opt_get [OF n1])
qed

lemma depositsDocumented_Some: "\<exists>b. depositsDocumented input = Some b"
proof (cases "js_typeof (opt_get (opt_get input ''assets'') ''deposit_explanations'') = TString")
  case False
  then show ?thesis by (auto simp: depositsDocumented_def)
next
  case True
  then obtain s where s: "opt_get (opt_get input ''assets'') ''deposit_explanations'' = JStr s"
    by (cases "opt_get (opt_get input ''assets'') ''deposit_explanations''") simp_all
  have n1: "\<not> nullish (opt_get input ''assets'')"
    using s by (auto simp: opt_get_nullish)
  then have n0: "\<not> nullish input"
    by (auto simp: opt_get_nullish)
  show ?thesis
    using True s by (auto simp: depositsDocumented_def get_prop_opt_get [OF n0] get_prop_opt_get [OF n1])
qed

text \<open>
  The evaluation returns exactly when the two calls of \<open>String\<close> do, and then the result
  is built from the normalised fields.
\<close>

lemma computeDecision_steps:
  "\<exists>cid ed ds doc.
     case_id input = Some (JStr cid) \<and> sumDebts (opt_get input ''debts'') = Some ed \<and>
     recentDeposits input = Some (JArr ds) \<and> depositsDocumented input = Some doc \<and>
     computeDecision B iso1 iso2 input =
       (case (employmentGap B input, propertyType B input) of
          (Some gap, Some ptype) \<Rightarrow>
            Some (build_result B iso1 iso2 input (JStr cid) ed ds doc gap ptype cid)
        | _ \<Rightarrow> None)"
proof -
  obtain cid where 1: "case_id input = Some (JStr cid)" using case_id_Some by blast
  obtain ed where 2: "sumDebts (opt_get input ''debts'') = Some ed" using sumDebts_Some by blast
  obtain ds where 3: "recentDeposits input = Some (JArr ds)" using recentDeposits_Some by blast
  obtain doc where 4: "depositsDocumented input = Some doc" using depositsDocumented_Some by blast
  show ?thesis
    using 1 2 3 4 by (simp add: computeDecision_def split: option.splits)
qed

lemma computeDecision_SomeD:
  assumes "computeDecision B iso1 iso2 input = Some r"
  shows "\<exists>cid ed ds doc gap ptype.
     case_id input = Some (JStr cid) \<and> sumDebts (opt_get input ''debts'') = Some ed \<and>
     recentDeposits input = Some (JArr ds) \<and> depositsDocumented input = Some doc \<and>
     employmentGap B input = Some gap \<and> propertyType B input = Some ptype \<and>
     r = build_result B iso1 iso2 input (JStr cid) ed ds doc gap ptype cid"
proof -
  obtain cid ed ds doc where s:
    "case_id input = Some (JStr cid)" "sumDebts (opt_get input ''debts'') = Some ed"
    "recentDeposits input = Some (JArr ds)" "depositsDocumented input = Some doc"
    and c: "computeDecision B iso1 iso2 input =
       (case (employmentGap B input, propertyType B input) of
          (Some gap, Some ptype) \<Rightarrow>
            Some (build_result B iso1 iso2 input (JStr cid) ed ds doc gap ptype cid)
        | _ \<Rightarrow> None)"
    using computeDecision_steps [of input B iso1 iso2] by blast
  from assms c obtain gap ptype where
    "employmentGap B input = Some gap" "propertyType B input = Some ptype"
    "r = build_result B iso1 iso2 input (JStr cid) ed ds doc gap ptype cid"
    by (auto split: option.splits)
  with s show ?thesis by blast
qed

lemma computeDecision_None_iff:
  "computeDecision B iso1 iso2 input = None \<longleftrightarrow>
     employmentGap B input = None \<or> propertyType B input = None"
  using computeDecision_steps [of input B iso1 iso2] by (auto split: option.splits)

subsection \<open>The fields of the result\<close>

lemma build_result_fields:
  "r_case_id (build_result B iso1 iso2 input cid ed ds doc gap pt ct) = cid"
  "r_metrics (build_result B iso1 iso2 input cid ed ds doc gap pt ct) = metrics_of input ed ds"
  "r_reasons (build_result B iso1 iso2 input cid ed ds doc gap pt ct) =
     reasons_of B input (metrics_of input ed ds)"
  "r_conditions (build_result B iso1 iso2 input cid ed ds doc gap pt ct) =
     conditions_of B input (metrics_of input ed ds) doc gap pt"
  "r_final_decision (build_result B iso1 iso2 input cid ed ds doc gap pt ct) =
     final_decision_of (reasons_of B input (metrics_of input ed ds))
       (conditions_of B input (metrics_of input ed ds) doc gap pt)"
  "r_risk_score (build_result B iso1 iso2 input cid ed ds doc gap pt ct) =
     risk_score_of (metrics_of input ed ds)"
  "r_raw_input (build_result B iso1 iso2 input cid ed ds doc gap pt ct) = input"
  "r_timestamp (build_result B iso1 iso2 input cid ed ds doc gap pt ct) = iso2"
  by (simp_all add: build_result_def Let_def)

lemma metrics_of_fields:
  "m_credit_score (metrics_of input ed ds) = credit_score input"
  "m_monthly_income (metrics_of input ed ds) = monthly_income input"
  "m_existing_debt (metrics_of input ed ds) = ed"
  "m_proposed_payment (metrics_of input ed ds) = proposed_payment input"
  "m_total_obligations (metrics_of input ed ds) = js_add ed (Fin (proposed_payment input))"
  "m_dti (metrics_of input ed ds) =
     dti_of (providedDtiRatio input) (monthly_income input) (js_add ed (Fin (proposed_payment input)))"
  "m_loan_amount (metrics_of input ed ds) = loan_amount input"
  "m_appraised_value (metrics_of input ed ds) = appraised_value input"
  "m_ltv (metrics_of input ed ds) = ltv_of (loan_amount input) (appraised_value input)"
  "m_liquid_assets_total (metrics_of input ed ds) = liquid_assets_total input"
  "m_reserves_months (metrics_of input ed ds) =
     reserves_of (liquid_assets_total input) (proposed_payment input)"
  "m_large_deposit_threshold (metrics_of input ed ds) = depositThreshold input"
  "m_large_deposits (metrics_of input ed ds) = largeDeposits (depositThreshold input) ds"
  by (simp_all add: metrics_of_def Let_def)

lemma final_decision_of_cases:
  "final_decision_of rs cs = DENIED \<longleftrightarrow> rs \<noteq> []"
  "final_decision_of rs cs = CONDITIONAL_APPROVAL \<longleftrightarrow> rs = [] \<and> cs \<noteq> []"
  "final_decision_of rs cs = APPROVED \<longleftrightarrow> rs = [] \<and> cs = []"
  by (auto simp: final_decision_of_def Let_def)

subsection \<open>The risk score\<close>

lemma risk_credit_cases: "risk_credit cs \<in> {5, 15, 30, 45, 70}"
  by (simp add: risk_credit_def)

lemma risk_credit_int: "\<exists>k::int. risk_credit cs = of_int k \<and> 5 \<le> k \<and> k \<le> 70"
proof -
  have "risk_credit cs = of_int (if 740 \<le> cs then 5 else if 700 \<le> cs then 15
      else if 660 \<le> cs then 30 else if 620 \<le> cs then 45 else 70)"
    by (simp add: risk_credit_def)
  then show ?thesis
    by (intro exI [of _ "if 740 \<le> cs then 5 else if 700 \<le> cs then 15
      else if 660 \<le> cs then 30 else if 620 \<le> cs then 45 else 70"]) simp
qed

lemma risk_dti_bounds: "\<exists>z. risk_dti x = Fin z \<and> 0 \<le> z \<and> z \<le> 30"
proof (cases x)
  case (Fin d)
  show ?thesis
    using clamp_bounds [OF scaled_difference_not_NaN [of d d0_28], of 0 30]
    by (simp add: risk_dti_def Fin)
qed (simp_all add: risk_dti_def)

lemma risk_ltv_bounds: "\<exists>z. risk_ltv x = Fin z \<and> 0 \<le> z \<and> z \<le> 25"
proof (cases x)
  case (Fin l)
  show ?thesis
    using clamp_bounds [OF scaled_difference_not_NaN [of l d0_80], of 0 25]
    by (simp add: risk_ltv_def Fin)
qed (simp_all add: risk_ltv_def)

lemma risk_reserves_bounds: "0 \<le> risk_reserves x \<and> risk_reserves x \<le> 15"
  by (cases x) (simp_all add: risk_reserves_def)

lemma risk_sum_bounds:
  "\<exists>y. js_add (js_add (js_add (js_add (Fin 0) (Fin (risk_credit cs))) (risk_dti d)) (risk_ltv l))
          (Fin (risk_reserves rm)) = Fin y \<and> 5 \<le> y \<and> y \<le> 140"
proof -
  obtain k :: int where k: "risk_credit cs = of_int k" "5 \<le> k" "k \<le> 70"
    using risk_credit_int by blast
  have r1: "js_add (Fin 0) (Fin (risk_credit cs)) = Fin (of_int k)"
    using fl_int [of k] k by simp
  obtain z where z: "risk_dti d = Fin z" "0 \<le> z" "z \<le> 30"
    using risk_dti_bounds by blast
  obtain y2 where y2: "js_add (Fin (of_int k)) (Fin z) = Fin y2" "of_int 5 \<le> y2" "y2 \<le> of_int 100"
    using js_add_between [of 5 "of_int k" z 100] k z by auto
  obtain w where w: "risk_ltv l = Fin w" "0 \<le> w" "w \<le> 25"
    using risk_ltv_bounds by blast
  obtain y3 where y3: "js_add (Fin y2) (Fin w) = Fin y3" "of_int 5 \<le> y3" "y3 \<le> of_int 125"
    using js_add_between [of 5 y2 w 125] y2 w by auto
  obtain y4 where y4: "js_add (Fin y3) (Fin (risk_reserves rm)) = Fin y4"
      "of_int 5 \<le> y4" "y4 \<le> of_int 140"
    using js_add_between [of 5 y3 "risk_reserves rm" 140] y3 risk_reserves_bounds [of rm] by auto
  show ?thesis
    using r1 z y2 w y3 y4 by simp
qed

lemma risk_score_of_bounds:
  "\<exists>k::int. risk_score_of m = Fin (of_int k) \<and> 5 \<le> k \<and> k \<le> 100"
proof -
  obtain y where y:
    "js_add (js_add (js_add (js_add (Fin 0) (Fin (risk_credit (m_credit_score m))))
        (risk_dti (m_dti m))) (risk_ltv (m_ltv m))) (Fin (risk_reserves (m_reserves_months m))) = Fin y"
    "5 \<le> y" "y \<le> 140"
    using risk_sum_bounds by blast
  have lo: "5 \<le> \<lfloor>y + 1 / 2\<rfloor>"
    using y(2) by (simp add: le_floor_iff)
  have "risk_score_of m = Fin (of_int (min 100 \<lfloor>y + 1 / 2\<rfloor>))"
    unfolding risk_score_of_def Let_def y(1)
    using lo by (simp add: Math_min_def Math_max_def min_def)
  then show ?thesis
    using lo by (intro exI [of _ "min 100 \<lfloor>y + 1 / 2\<rfloor>"]) simp
qed







subsection \<open>The concrete cases, evaluated\<close>

lemma scenario_A_result:
  "\<exists>r. computeDecision plain morning morning' scenario_A = Some r \<and>
     r_final_decision r = APPROVED \<and> r_risk_score r = Fin 5 \<and> r_reasons r = [] \<and>
     r_conditions r = [] \<and> m_dti (r_metrics r) = Fin (1 / 4) \<and> r_timestamp r = morning'"
proof -
  have "map_option
      (\<lambda>r. (r_final_decision r, r_risk_score r, r_reasons r, r_conditions r, m_dti (r_metrics r),
            r_timestamp r))
      (computeDecision plain morning morning' scenario_A) =
    Some (APPROVED, Fin 5, [], [], Fin (1 / 4), morning')"
    by code_simp
  then show ?thesis
    by (cases "computeDecision plain morning morning' scenario_A") auto
qed

lemma empty_record_result:
  "\<exists>r. computeDecision plain morning morning' (JObj []) = Some r \<and>
     r_final_decision r = DENIED \<and> r_risk_score r = Fin 100 \<and>
     m_dti (r_metrics r) = PosInf \<and> m_ltv (r_metrics r) = PosInf \<and>
     m_reserves_months (r_metrics r) = PosInf"
proof -
  have "map_option
      (\<lambda>r. (r_final_decision r, r_risk_score r, m_dti (r_metrics r), m_ltv (r_metrics r),
            m_reserves_months (r_metrics r)))
      (computeDecision plain morning morning' (JObj [])) =
    Some (DENIED, Fin 100, PosInf, PosInf, PosInf)"
    by code_simp
  then show ?thesis
    by (cases "computeDecision plain morning morning' (JObj [])") auto
qed


lemma late_case_result:
  "\<exists>r. computeDecision plain morning morning' late_case = Some r \<and>
     r_final_decision r = DENIED \<and>
     r_conditions r = [''Provide letter of explanation for 3 late payment(s) in the last 12 months.''] \<and>
     r_reasons r = [''Late payments in last 12 months (3) exceed maximum of 2.'']"
proof -
  have "map_option (\<lambda>r. (r_final_decision r, r_conditions r, r_reasons r))
      (computeDecision plain morning morning' late_case) =
    Some (DENIED,
      [''Provide letter of explanation for 3 late payment(s) in the last 12 months.''],
      [''Late payments in last 12 months (3) exceed maximum of 2.''])"
    by code_simp
  then show ?thesis
    by (cases "computeDecision plain morning morning' late_case") auto
qed

lemma no_score_case_result:
  "\<exists>r. computeDecision plain morning morning' no_score_case = Some r \<and>
     r_final_decision r = DENIED \<and> m_credit_score (r_metrics r) = 0 \<and>
     r_reasons r = [''Credit score 0 is below minimum 620.''] \<and> r_conditions r = []"
proof -
  have "map_option
      (\<lambda>r. (r_final_decision r, m_credit_score (r_metrics r), r_reasons r, r_conditions r))
      (computeDecision plain morning morning' no_score_case) =
    Some (DENIED, 0, [''Credit score 0 is below minimum 620.''], [])"
    by code_simp
  then show ?thesis
    by (cases "computeDecision plain morning morning' no_score_case") auto
qed

lemma negative_income_case_result:
  "\<exists>r. computeDecision plain morning morning' negative_income_case = Some r \<and>
     m_dti (r_metrics r) = PosInf \<and> m_existing_debt (r_metrics r) = Fin 0"
proof -
  have "map_option (\<lambda>r. (m_dti (r_metrics r), m_existing_debt (r_metrics r)))
      (computeDecision plain morning morning' negative_income_case) = Some (PosInf, Fin 0)"
    by code_simp
  then show ?thesis
    by (cases "computeDecision plain morning morning' negative_income_case") auto
qed

lemma computed_dti_case_result:
  "\<exists>r. computeDecision plain morning morning' computed_dti_case = Some r \<and>
     m_dti (r_metrics r) = Fin (1 / 2) \<and> m_existing_debt (r_metrics r) = Fin 500"
proof -
  have "map_option (\<lambda>r. (m_dti (r_metrics r), m_existing_debt (r_metrics r)))
      (computeDecision plain morning morning' computed_dti_case) = Some (Fin (1 / 2), Fin 500)"
    by code_simp
  then show ?thesis
    by (cases "computeDecision plain morning morning' computed_dti_case") auto
qed

subsection \<open>Decision\<close>

text \<open>
  Claim C1. For every input on which the evaluation returns, the decision is \<open>DENIED\<close>
  exactly when the list of reasons is not empty, \<open>CONDITIONAL_APPROVAL\<close> exactly when it
  is empty and the list of conditions is not, and \<open>APPROVED\<close> exactly when both are
  empty. The decision is a function of the two lists alone (\<open>final_decision_of\<close> does not
  take the risk score), and \<open>decision\<close> has no fourth value.
\<close>

theorem decision_priority:
  assumes "computeDecision B iso1 iso2 input = Some r"
  shows "r_final_decision r = final_decision_of (r_reasons r) (r_conditions r) \<and>
         (r_final_decision r = DENIED \<longleftrightarrow> r_reasons r \<noteq> []) \<and>
         (r_final_decision r = CONDITIONAL_APPROVAL \<longleftrightarrow>
            r_reasons r = [] \<and> r_conditions r \<noteq> []) \<and>
         (r_final_decision r = APPROVED \<longleftrightarrow> r_reasons r = [] \<and> r_conditions r = [])"
proof -
  obtain cid ed ds doc gap ptype where
    r: "r = build_result B iso1 iso2 input (JStr cid) ed ds doc gap ptype cid"
    using computeDecision_SomeD [OF assms] by blast
  show ?thesis
    unfolding r by (simp add: build_result_fields final_decision_of_cases)
qed

text \<open>Scenario A has no reason and no condition, and is approved.\<close>

theorem decision_priority_witness:
  "\<exists>r. computeDecision plain morning morning' scenario_A = Some r \<and>
     r_reasons r = [] \<and> r_conditions r = [] \<and> r_final_decision r = APPROVED"
proof -
  obtain r where r: "computeDecision plain morning morning' scenario_A = Some r"
    and l: "r_reasons r = []" "r_conditions r = []"
    using scenario_A_result by blast
  from decision_priority [OF r] l have "r_final_decision r = APPROVED"
    by blast
  with r l show ?thesis by blast
qed

subsection \<open>Ratios with a zero or absent denominator\<close>

lemma monthly_income_zero:
  "zero_or_absent (asNumber (opt_get (opt_get input ''employment'') ''monthly_income'')) \<longleftrightarrow>
     monthly_income input = 0"
  by (auto simp: zero_or_absent_def monthly_income_def or_else_def split: option.splits)

lemma appraised_value_zero:
  "zero_or_absent (asNumber (opt_get (opt_get input ''property'') ''appraised_value'')) \<longleftrightarrow>
     appraised_value input = 0"
  by (auto simp: zero_or_absent_def appraised_value_def or_else_def split: option.splits)

lemma proposed_payment_zero:
  "proposed_payment input = 0 \<longleftrightarrow>
     asNumber (opt_get (opt_get input ''loan'') ''monthly_piti'') = Some 0 \<or>
     asNumber (opt_get (opt_get input ''loan'') ''monthly_piti'') = None \<and>
     zero_or_absent (asNumber (opt_get (opt_get input ''loan'') ''estimated_payment''))"
  by (auto simp: zero_or_absent_def proposed_payment_def or_else_def split: option.splits)

lemma dti_of_not_authoritative:
  "\<not> authoritative p \<Longrightarrow>
     dti_of p income obligations =
       (if 0 < income then js_div obligations (Fin income) else PosInf)"
  by (auto simp: dti_of_def authoritative_def split: option.splits)

lemma dti_of_authoritative:
  "0 \<le> p \<Longrightarrow> p \<le> 3 / 2 \<Longrightarrow> dti_of (Some p) income obligations = Fin p"
  by (simp add: dti_of_def)

text \<open>
  Claim C2. On every input on which the evaluation returns: when the monthly income is
  zero or absent and no authoritative ratio was supplied, \<open>dti\<close> is positive infinity;
  when the appraised value is zero or absent, \<open>ltv\<close> is; when the proposed payment is zero
  or absent (\<open>monthly_piti\<close> is zero, or it is absent and \<open>estimated_payment\<close> is zero or
  absent), \<open>reserves_months\<close> is. Positive infinity is a constructor of its own, distinct
  from zero and from NaN.
\<close>

theorem zero_denominator_is_infinity:
  assumes "computeDecision B iso1 iso2 input = Some r"
  shows
    "(zero_or_absent (asNumber (opt_get (opt_get input ''employment'') ''monthly_income'')) \<and>
      \<not> authoritative (asNumber (opt_get input ''dti_ratio'')) \<longrightarrow>
        m_dti (r_metrics r) = PosInf) \<and>
     (zero_or_absent (asNumber (opt_get (opt_get input ''property'') ''appraised_value'')) \<longrightarrow>
        m_ltv (r_metrics r) = PosInf) \<and>
     (asNumber (opt_get (opt_get input ''loan'') ''monthly_piti'') = Some 0 \<or>
      asNumber (opt_get (opt_get input ''loan'') ''monthly_piti'') = None \<and>
      zero_or_absent (asNumber (opt_get (opt_get input ''loan'') ''estimated_payment'')) \<longrightarrow>
        m_reserves_months (r_metrics r) = PosInf)"
proof -
  obtain cid ed ds doc gap ptype where
    r: "r = build_result B iso1 iso2 input (JStr cid) ed ds doc gap ptype cid"
    using computeDecision_SomeD [OF assms] by blast
  have dti: "m_dti (metrics_of input ed ds) = PosInf"
    if "monthly_income input = 0" "\<not> authoritative (asNumber (opt_get input ''dti_ratio''))"
    using that by (simp add: metrics_of_fields providedDtiRatio_def dti_of_not_authoritative)
  have ltv: "m_ltv (metrics_of input ed ds) = PosInf" if "appraised_value input = 0"
    using that by (simp add: metrics_of_fields ltv_of_def)
  have res: "m_reserves_months (metrics_of input ed ds) = PosInf" if "proposed_payment input = 0"
    using that by (simp add: metrics_of_fields reserves_of_def)
  show ?thesis
    unfolding r monthly_income_zero appraised_value_zero proposed_payment_zero [symmetric]
    using dti ltv res by (simp add: build_result_fields)
qed

text \<open>The empty record has no income, no appraisal and no payment.\<close>

theorem zero_denominator_is_infinity_witness:
  "zero_or_absent (asNumber (opt_get (opt_get (JObj []) ''employment'') ''monthly_income'')) \<and>
   \<not> authoritative (asNumber (opt_get (JObj []) ''dti_ratio'')) \<and>
   zero_or_absent (asNumber (opt_get (opt_get (JObj []) ''property'') ''appraised_value'')) \<and>
   asNumber (opt_get (opt_get (JObj []) ''loan'') ''monthly_piti'') = None \<and>
   zero_or_absent (asNumber (opt_get (opt_get (JObj []) ''loan'') ''estimated_payment'')) \<and>
   (\<exists>r. computeDecision plain morning morning' (JObj []) = Some r \<and>
      m_dti (r_metrics r) = PosInf \<and> m_ltv (r_metrics r) = PosInf \<and>
      m_reserves_months (r_metrics r) = PosInf)"
proof -
  have h:
    "zero_or_absent (asNumber (opt_get (opt_get (JObj []) ''employment'') ''monthly_income''))"
    "\<not> authoritative (asNumber (opt_get (JObj []) ''dti_ratio''))"
    "zero_or_absent (asNumber (opt_get (opt_get (JObj []) ''property'') ''appraised_value''))"
    "asNumber (opt_get (opt_get (JObj []) ''loan'') ''monthly_piti'') = None"
    "zero_or_absent (asNumber (opt_get (opt_get (JObj []) ''loan'') ''estimated_payment''))"
    by code_simp+
  obtain r where r: "computeDecision plain morning morning' (JObj []) = Some r"
    using empty_record_result by blast
  from zero_denominator_is_infinity [OF r] h
  have "m_dti (r_metrics r) = PosInf" "m_ltv (r_metrics r) = PosInf"
    "m_reserves_months (r_metrics r) = PosInf"
    by blast+
  with r h show ?thesis by blast
qed

subsection \<open>The debt-to-income ratio\<close>

lemma monthly_income_nonneg_zero:
  "0 \<le> monthly_income input \<Longrightarrow>
     zero_or_absent (asNumber (opt_get (opt_get input ''employment'') ''monthly_income'')) \<longleftrightarrow>
       \<not> 0 < monthly_income input"
  unfolding monthly_income_zero by auto

lemma dti_of_spec:
  "0 \<le> monthly_income input \<Longrightarrow>
     dti_of (providedDtiRatio input) (monthly_income input)
       (js_add ed (Fin (proposed_payment input))) = spec_dti input ed"
  by (simp add: dti_of_def spec_dti_def Let_def providedDtiRatio_def monthly_income_nonneg_zero
      split: option.splits)

text \<open>
  Claim C6, as amended. On every input on which the evaluation returns: a supplied
  \<open>dti_ratio\<close> that coerces to a number between 0 and 1.5 is \<open>dti\<close>, unchanged. Otherwise
  \<open>dti\<close> is the existing debt plus the proposed payment, over the monthly income, when the
  monthly income is above zero, and positive infinity when the monthly income is zero,
  negative or absent. The sum and the quotient are those of the engine's numbers, rounded
  to the nearest double. Whenever the monthly income is not negative this is the ratio as
  the specification words it.
\<close>

theorem dti_rule:
  assumes "computeDecision B iso1 iso2 input = Some r"
  shows
    "sumDebts (opt_get input ''debts'') = Some (m_existing_debt (r_metrics r)) \<and>
     (\<forall>p. asNumber (opt_get input ''dti_ratio'') = Some p \<and> 0 \<le> p \<and> p \<le> 3 / 2 \<longrightarrow>
        m_dti (r_metrics r) = Fin p) \<and>
     (\<not> authoritative (asNumber (opt_get input ''dti_ratio'')) \<and> 0 < monthly_income input \<longrightarrow>
        m_dti (r_metrics r) =
          js_div (js_add (m_existing_debt (r_metrics r)) (Fin (proposed_payment input)))
            (Fin (monthly_income input))) \<and>
     (\<not> authoritative (asNumber (opt_get input ''dti_ratio'')) \<and> monthly_income input \<le> 0 \<longrightarrow>
        m_dti (r_metrics r) = PosInf) \<and>
     (0 \<le> monthly_income input \<longrightarrow>
        m_dti (r_metrics r) = spec_dti input (m_existing_debt (r_metrics r)))"
proof -
  obtain cid ed ds doc gap ptype where
    s: "sumDebts (opt_get input ''debts'') = Some ed" and
    r: "r = build_result B iso1 iso2 input (JStr cid) ed ds doc gap ptype cid"
    using computeDecision_SomeD [OF assms] by blast
  show ?thesis
    unfolding r using s
    by (auto simp: build_result_fields metrics_of_fields providedDtiRatio_def
        dti_of_authoritative dti_of_not_authoritative dti_of_spec [unfolded providedDtiRatio_def])
qed

text \<open>
  Scenario A supplies the ratio 0.25; a case with income 4000, payment 1500 and debts 500
  gets 2000 / 4000; a case with income -1000 gets positive infinity.
\<close>

theorem dti_rule_witness:
  "asNumber (opt_get scenario_A ''dti_ratio'') = Some (1 / 4) \<and>
   (\<exists>r. computeDecision plain morning morning' scenario_A = Some r \<and>
      m_dti (r_metrics r) = Fin (1 / 4)) \<and>
   \<not> authoritative (asNumber (opt_get computed_dti_case ''dti_ratio'')) \<and>
   0 < monthly_income computed_dti_case \<and>
   (\<exists>r. computeDecision plain morning morning' computed_dti_case = Some r \<and>
      m_dti (r_metrics r) = Fin (1 / 2) \<and>
      js_div (js_add (m_existing_debt (r_metrics r)) (Fin (proposed_payment computed_dti_case)))
        (Fin (monthly_income computed_dti_case)) = Fin (1 / 2)) \<and>
   \<not> authoritative (asNumber (opt_get negative_income_case ''dti_ratio'')) \<and>
   monthly_income negative_income_case \<le> 0 \<and>
   (\<exists>r. computeDecision plain morning morning' negative_income_case = Some r \<and>
      m_dti (r_metrics r) = PosInf)"
proof -
  have h1: "asNumber (opt_get scenario_A ''dti_ratio'') = Some (1 / 4)"
    by code_simp
  have h2: "\<not> authoritative (asNumber (opt_get computed_dti_case ''dti_ratio''))"
    "0 < monthly_income computed_dti_case"
    by code_simp+
  have h3: "\<not> authoritative (asNumber (opt_get negative_income_case ''dti_ratio''))"
    "monthly_income negative_income_case \<le> 0"
    by code_simp+
  obtain r1 where r1: "computeDecision plain morning morning' scenario_A = Some r1"
    using scenario_A_result by blast
  from dti_rule [OF r1] h1 have d1: "m_dti (r_metrics r1) = Fin (1 / 4)"
    by simp
  obtain r2 where r2: "computeDecision plain morning morning' computed_dti_case = Some r2"
    and v2: "m_dti (r_metrics r2) = Fin (1 / 2)"
    using computed_dti_case_result by blast
  from dti_rule [OF r2] h2 v2
  have d2: "js_div (js_add (m_existing_debt (r_metrics r2)) (Fin (proposed_payment computed_dti_case)))
        (Fin (monthly_income computed_dti_case)) = Fin (1 / 2)"
    by simp
  obtain r3 where r3: "computeDecision plain morning morning' negative_income_case = Some r3"
    using negative_income_case_result by blast
  from dti_rule [OF r3] h3 have d3: "m_dti (r_metrics r3) = PosInf"
    by simp
  from h1 h2 h3 r1 d1 r2 v2 d2 r3 d3 show ?thesis by blast
qed

text \<open>
  The claim as stated fails on a negative income: for an income of -1000 and a payment
  of 500 the engine returns positive infinity, where the ratio as the specification words
  it is 500 / -1000.
\<close>

theorem dti_negative_income_counterexample:
  "\<exists>r. computeDecision plain morning morning' negative_income_case = Some r \<and>
     m_dti (r_metrics r) = PosInf \<and>
     spec_dti negative_income_case (m_existing_debt (r_metrics r)) = Fin (- (1 / 2))"
proof -
  have "spec_dti negative_income_case (Fin 0) = Fin (- (1 / 2))"
    by code_simp
  then show ?thesis
    using negative_income_case_result by auto
qed

subsection \<open>Debt aggregation\<close>

lemma foldl_native_line_items:
  "foldl (\<lambda>acc (k, v). js_add acc (as_number v)) a
     (filter (\<lambda>(k, v). k \<noteq> ''total_monthly_debt'' \<and> js_typeof v = TNumber) kvs) =
   foldl js_add a (native_line_items kvs)"
proof (induction kvs arbitrary: a)
  case Nil
  show ?case by simp
next
  case (Cons kv kvs)
  obtain k v where kv: "kv = (k, v)" by (cases kv)
  show ?case
    unfolding kv using Cons.IH by (cases v) simp_all
qed

text \<open>
  Claim C8, as amended. For every debts record: when the aggregate field
  \<open>total_monthly_debt\<close> coerces to a number (a native number or a numeric string), that
  number is the total and the line items are ignored; otherwise the total is the sum,
  accumulated from 0 in the order of the record, of the line items, other than the
  aggregate field, that are native numbers. A line item that is a numeric string is not
  counted.
\<close>

theorem sumDebts_record:
  "sumDebts (JObj kvs) =
     Some (case asNumber (read_prop (JObj kvs) ''total_monthly_debt'') of
             Some t \<Rightarrow> Fin t
           | None \<Rightarrow> js_sum (native_line_items kvs))"
  by (simp add: sumDebts_def get_prop_def foldl_native_line_items js_sum_def split: option.split)

text \<open>
  A record with the line items \<open>"300"\<close> and 50 totals 50; with an aggregate field
  \<open>"900"\<close> in front it totals 900.
\<close>

theorem sumDebts_record_witness:
  "sumDebts (JObj string_debts) = Some (Fin 50) \<and>
   js_sum (native_line_items string_debts) = Fin 50 \<and>
   sumDebts (JObj ((''total_monthly_debt'', JStr ''900'') # string_debts)) = Some (Fin 900)"
proof -
  have a: "asNumber (read_prop (JObj string_debts) ''total_monthly_debt'') = None"
    "js_sum (native_line_items string_debts) = Fin 50"
    "asNumber (read_prop (JObj ((''total_monthly_debt'', JStr ''900'') # string_debts))
       ''total_monthly_debt'') = Some 900"
    by code_simp+
  show ?thesis
    using sumDebts_record [of string_debts]
      sumDebts_record [of "(''total_monthly_debt'', JStr ''900'') # string_debts"] a
    by simp
qed

text \<open>
  The claim as stated fails: with the coercion rule applied to the line items the
  record would total 350.
\<close>

theorem sumDebts_numeric_string_counterexample:
  "sumDebts (JObj string_debts) = Some (Fin 50) \<and> spec_sumDebts string_debts = Fin 350"
  by code_simp

subsection \<open>A missing credit score\<close>

lemma asNumber_None_iff: "asNumber v = None \<longleftrightarrow> \<not> numeric v"
proof (cases v)
  case (JNum n)
  then show ?thesis by (cases n) (simp_all add: asNumber_def numeric_def)
next
  case (JStr s)
  then show ?thesis by (cases "str_to_number s") (simp_all add: asNumber_def numeric_def)
qed (simp_all add: asNumber_def numeric_def)

lemma credit_score_absent:
  "asNumber (opt_get input ''credit_score'') = None \<Longrightarrow> credit_score input = 0"
  by (simp add: credit_score_def or_else_def)

text \<open>
  Claim C9, as amended. When \<open>credit_score\<close> is absent or not numeric, \<open>asNumber\<close> yields
  \<open>null\<close> and the engine then takes the score to be 0: on every such input on which the
  evaluation returns, the reason for a score below 620 is emitted, first in the list and
  naming the score 0, and the decision is \<open>DENIED\<close>.
\<close>

theorem missing_credit_score_counts_as_zero:
  assumes "computeDecision B iso1 iso2 input = Some r"
    and "\<not> numeric (opt_get input ''credit_score'')"
  shows "asNumber (opt_get input ''credit_score'') = None \<and>
         m_credit_score (r_metrics r) = 0 \<and>
         (\<exists>rest. r_reasons r =
            (''Credit score '' @ numToString B (Fin 0) @ '' is below minimum 620.'') # rest) \<and>
         r_final_decision r = DENIED"
proof -
  have a: "asNumber (opt_get input ''credit_score'') = None"
    using assms(2) by (simp add: asNumber_None_iff)
  obtain cid ed ds doc gap ptype where
    r: "r = build_result B iso1 iso2 input (JStr cid) ed ds doc gap ptype cid"
    using computeDecision_SomeD [OF assms(1)] by blast
  let ?m = "metrics_of input ed ds"
  have cs: "m_credit_score ?m = 0"
    using a by (simp add: metrics_of_fields credit_score_absent)
  then have rs: "reasons_of B input ?m =
      (''Credit score '' @ numToString B (Fin 0) @ '' is below minimum 620.'')
        # (reason_dti B (m_dti ?m) @ reason_ltv B (m_ltv ?m)
           @ reason_reserves (m_reserves_months ?m) @ reason_late B (latePayments12mo input))"
    by (simp add: reasons_of_def reason_credit_def)
  then have "final_decision_of (reasons_of B input ?m) (conditions_of B input ?m doc gap ptype)
      = DENIED"
    by (simp add: final_decision_of_cases)
  with a cs rs show ?thesis
    unfolding r by (simp add: build_result_fields)
qed

text \<open>Scenario A without its credit score.\<close>

theorem missing_credit_score_counts_as_zero_witness:
  "\<not> numeric (opt_get no_score_case ''credit_score'') \<and>
   asNumber (opt_get no_score_case ''credit_score'') = None \<and>
   (\<exists>r. computeDecision plain morning morning' no_score_case = Some r \<and>
      m_credit_score (r_metrics r) = 0 \<and> r_final_decision r = DENIED)"
proof -
  have h: "\<not> numeric (opt_get no_score_case ''credit_score'')"
    by code_simp
  obtain r where r: "computeDecision plain morning morning' no_score_case = Some r"
    using no_score_case_result by blast
  from missing_credit_score_counts_as_zero [OF r h] r h show ?thesis
    by blast
qed

text \<open>
  The claim as stated fails: scenario A without its credit score is denied for the score
  alone, while scenario A itself is approved.
\<close>

theorem missing_credit_score_counterexample:
  "\<not> numeric (opt_get no_score_case ''credit_score'') \<and>
   (\<exists>r. computeDecision plain morning morning' no_score_case = Some r \<and>
      r_reasons r = [''Credit score 0 is below minimum 620.''] \<and> r_final_decision r = DENIED) \<and>
   (\<exists>r. computeDecision plain morning morning' scenario_A = Some r \<and>
      r_final_decision r = APPROVED)"
proof -
  have "\<not> numeric (opt_get no_score_case ''credit_score'')"
    by code_simp
  then show ?thesis
    using no_score_case_result scenario_A_result by blast
qed

subsection \<open>Late payments\<close>

lemma reasons_of_late:
  "2 < latePayments12mo input \<Longrightarrow>
     (''Late payments in last 12 months ('' @ numToString B (Fin (latePayments12mo input))
        @ '') exceed maximum of 2.'') \<in> set (reasons_of B input m)"
  by (simp add: reasons_of_def reason_late_def)

lemma conditions_of_late:
  "0 < latePayments12mo input \<Longrightarrow>
     (''Provide letter of explanation for '' @ numToString B (Fin (latePayments12mo input))
        @ '' late payment(s) in the last 12 months.'') \<in> set (conditions_of B input m doc gap pt)"
  by (simp add: conditions_of_def condition_late_def)

text \<open>
  Claim C7. On every input on which the evaluation returns, the letter-of-explanation
  condition is emitted whenever the 12-month count of late payments is above 0. When the
  count is above 2 the evaluation emits that condition and also the excessive-lateness
  reason: the decision is \<open>DENIED\<close> and the condition is still in the list of conditions.
\<close>

theorem late_payments_both_fire:
  assumes "computeDecision B iso1 iso2 input = Some r"
  shows
    "(0 < latePayments12mo input \<longrightarrow>
        (''Provide letter of explanation for '' @ numToString B (Fin (latePayments12mo input))
           @ '' late payment(s) in the last 12 months.'') \<in> set (r_conditions r)) \<and>
     (2 < latePayments12mo input \<longrightarrow>
        (''Provide letter of explanation for '' @ numToString B (Fin (latePayments12mo input))
           @ '' late payment(s) in the last 12 months.'') \<in> set (r_conditions r) \<and>
        (''Late payments in last 12 months ('' @ numToString B (Fin (latePayments12mo input))
           @ '') exceed maximum of 2.'') \<in> set (r_reasons r) \<and>
        r_final_decision r = DENIED)"
proof -
  obtain cid ed ds doc gap ptype where
    r: "r = build_result B iso1 iso2 input (JStr cid) ed ds doc gap ptype cid"
    using computeDecision_SomeD [OF assms] by blast
  let ?m = "metrics_of input ed ds"
  have den: "final_decision_of (reasons_of B input ?m) (conditions_of B input ?m doc gap ptype)
      = DENIED"
    if "2 < latePayments12mo input"
    using reasons_of_late [OF that, of B ?m] by (auto simp: final_decision_of_cases)
  show ?thesis
    unfolding r
    using den reasons_of_late [of input B ?m] conditions_of_late [of input B ?m doc gap ptype]
    by (simp add: build_result_fields)
qed

text \<open>Three late payments on the otherwise clean scenario A.\<close>

theorem late_payments_both_fire_witness:
  "2 < latePayments12mo late_case \<and>
   (\<exists>r. computeDecision plain morning morning' late_case = Some r \<and>
      r_conditions r =
        [''Provide letter of explanation for 3 late payment(s) in the last 12 months.''] \<and>
      r_reasons r = [''Late payments in last 12 months (3) exceed maximum of 2.''] \<and>
      r_final_decision r = DENIED)"
proof -
  have h: "2 < latePayments12mo late_case"
    by code_simp
  obtain r where r: "computeDecision plain morning morning' late_case = Some r"
    and v: "r_conditions r =
        [''Provide letter of explanation for 3 late payment(s) in the last 12 months.'']"
      "r_reasons r = [''Late payments in last 12 months (3) exceed maximum of 2.'']"
    using late_case_result by blast
  from late_payments_both_fire [OF r] h have "r_final_decision r = DENIED"
    by blast
  with h r v show ?thesis by blast
qed

subsection \<open>Risk score\<close>



text \<open>
  Claim C10. On every input on which the evaluation returns, the risk score is at least
  5, so the lower end 0 of the documented range is never attained.
\<close>

theorem risk_score_at_least_5:
  assumes "computeDecision B iso1 iso2 input = Some r"
  shows "(\<exists>s. r_risk_score r = Fin s \<and> 5 \<le> s) \<and> r_risk_score r \<noteq> Fin 0"
proof -
  obtain cid ed ds doc gap ptype where
    r: "r = build_result B iso1 iso2 input (JStr cid) ed ds doc gap ptype cid"
    using computeDecision_SomeD [OF assms] by blast
  obtain k :: int where k: "risk_score_of (metrics_of input ed ds) = Fin (of_int k)" "5 \<le> k"
    using risk_score_of_bounds by blast
  then show ?thesis
    unfolding r by (simp add: build_result_fields)
qed

text \<open>Scenario A scores 5, the credit tier of a score of 750 and nothing else.\<close>

theorem risk_score_at_least_5_witness:
  "\<exists>r. computeDecision plain morning morning' scenario_A = Some r \<and>
     r_risk_score r = Fin 5 \<and> r_risk_score r \<noteq> Fin 0"
proof -
  obtain r where r: "computeDecision plain morning morning' scenario_A = Some r"
    and v: "r_risk_score r = Fin 5"
    using scenario_A_result by blast
  from risk_score_at_least_5 [OF r] have "r_risk_score r \<noteq> Fin 0"
    by blast
  with r v show ?thesis by blast
qed

subsection \<open>Determinism\<close>

lemma build_result_memo:
  "r_decision_memo (build_result B iso1 iso2 input cid ed ds doc gap pt ct) =
     decision_memo_of B iso1 ct (metrics_of input ed ds) (risk_score_of (metrics_of input ed ds))
       (final_decision_of (reasons_of B input (metrics_of input ed ds))
          (conditions_of B input (metrics_of input ed ds) doc gap pt))
       (reasons_of B input (metrics_of input ed ds))
       (conditions_of B input (metrics_of input ed ds) doc gap pt)"
  by (simp add: build_result_def Let_def)

lemma decision_memo_of_date:
  "iso_date a' = iso_date a \<Longrightarrow>
     decision_memo_of B a' cid m risk dec rs cs = decision_memo_of B a cid m risk dec rs cs"
  by (simp add: decision_memo_of_def)

text \<open>
  Claim C5, as amended. When an evaluation of a case returns, so does every other
  evaluation of the same case, whatever the clock shows, and the two produce the same
  reasons, conditions, decision, risk score, metrics, case identity and raw input. The
  clock reaches two fields: the timestamp, and the decision memo through its date line,
  so that two evaluations on the same day produce the same memo.
\<close>

theorem clock_reaches_timestamp_and_memo_only:
  assumes "computeDecision B a b input = Some r"
  shows "\<exists>r'. computeDecision B a' b' input = Some r' \<and>
     r_reasons r' = r_reasons r \<and> r_conditions r' = r_conditions r \<and>
     r_final_decision r' = r_final_decision r \<and> r_risk_score r' = r_risk_score r \<and>
     r_metrics r' = r_metrics r \<and> r_case_id r' = r_case_id r \<and>
     r_raw_input r' = r_raw_input r \<and>
     r_timestamp r = b \<and> r_timestamp r' = b' \<and>
     (iso_date a' = iso_date a \<longrightarrow> r_decision_memo r' = r_decision_memo r)"
proof -
  obtain cid ed ds doc gap ptype where
    s: "case_id input = Some (JStr cid)" "sumDebts (opt_get input ''debts'') = Some ed"
       "recentDeposits input = Some (JArr ds)" "depositsDocumented input = Some doc"
       "employmentGap B input = Some gap" "propertyType B input = Some ptype" and
    r: "r = build_result B a b input (JStr cid) ed ds doc gap ptype cid"
    using computeDecision_SomeD [OF assms] by blast
  have r': "computeDecision B a' b' input =
      Some (build_result B a' b' input (JStr cid) ed ds doc gap ptype cid)"
    using s by (simp add: computeDecision_def)
  have memo: "r_decision_memo (build_result B a' b' input (JStr cid) ed ds doc gap ptype cid) =
      r_decision_memo (build_result B a b input (JStr cid) ed ds doc gap ptype cid)"
    if "iso_date a' = iso_date a"
    unfolding build_result_memo by (rule decision_memo_of_date [OF that])
  show ?thesis
    unfolding r r' using memo by (simp add: build_result_fields)
qed

text \<open>Two evaluations of scenario A on the same morning.\<close>

theorem clock_reaches_timestamp_and_memo_only_witness:
  "iso_date morning = iso_date morning' \<and>
   (\<exists>r r'. computeDecision plain morning morning' scenario_A = Some r \<and>
      computeDecision plain morning' morning scenario_A = Some r' \<and>
      r_decision_memo r' = r_decision_memo r \<and> r_final_decision r' = APPROVED \<and>
      r_timestamp r = morning' \<and> r_timestamp r' = morning)"
proof -
  have h: "iso_date morning' = iso_date morning"
    by code_simp
  obtain r where r: "computeDecision plain morning morning' scenario_A = Some r"
    and v: "r_final_decision r = APPROVED"
    using scenario_A_result by blast
  from clock_reaches_timestamp_and_memo_only [OF r, of morning' morning] h v
  obtain r' where
    "computeDecision plain morning' morning scenario_A = Some r'"
    "r_decision_memo r' = r_decision_memo r" "r_final_decision r' = APPROVED"
    "r_timestamp r = morning'" "r_timestamp r' = morning"
    by auto
  with r h show ?thesis by auto
qed

text \<open>
  The claim as stated fails: the timestamp is not the only field that varies. The memos
  of scenario A evaluated on two consecutive days differ.
\<close>

theorem memo_depends_on_clock_counterexample:
  "map_option r_decision_memo (computeDecision plain morning morning' scenario_A) \<noteq>
   map_option r_decision_memo (computeDecision plain next_day next_day' scenario_A)"
  by code_simp

subsection \<open>Totality\<close>

text \<open>
  Claim C4 fails in the code. An employment gap that is an object with a key
  \<open>toString\<close> makes \<open>String(input?.employment?.employment_gap ?? "")\<close> throw a TypeError,
  whatever the runtime and the clock: the evaluation raises and produces no result.
\<close>

theorem computeDecision_raises_on_toString_key:
  "computeDecision B iso1 iso2 toString_case = None"
proof -
  have "employmentGap B toString_case = None"
    by (simp add: employmentGap_def toString_case_def opt_get_def coalesce_def)
  then show ?thesis
    by (simp add: computeDecision_None_iff)
qed

theorem computeDecision_raises_on_toString_key_witness:
  "computeDecision plain morning morning' toString_case = None \<and>
   employmentGap plain toString_case = None"
proof -
  have "employmentGap plain toString_case = None"
    by code_simp
  then show ?thesis
    using computeDecision_raises_on_toString_key [of plain morning morning'] by simp
qed

end
